theory Spec2Isabelle
  imports Main
begin

section \<open>Text and exceptions\<close>

text \<open>
  Python text is modelled as \<open>string\<close> holding its UTF-8 encoding, so a character beyond
  ASCII is several \<open>char\<close>s. Values of \<open>py_exception\<close> stand for raised instances of
  \<^verbatim>\<open>Exception\<close>: the class name and the text that \<^verbatim>\<open>str(e)\<close> gives. A computation that may
  raise returns \<open>py_exception + 'a\<close>, with \<open>Inl\<close> for the raise.
\<close>

datatype py_exception = PyException (exc_class: string) (exc_str: string)

text \<open>\<^verbatim>\<open>sep.join(xs)\<close>.\<close>

fun py_join :: "string \<Rightarrow> string list \<Rightarrow> string" where
  "py_join sep [] = []"
| "py_join sep [x] = x"
| "py_join sep (x # y # ys) = x @ sep @ py_join sep (y # ys)"

text \<open>
  ASCII bytes, the continuation bytes of a UTF-8 sequence, and \<^verbatim>\<open>str.upper\<close> on an ASCII
  character.
\<close>

definition is_ascii :: "char \<Rightarrow> bool" where
  "is_ascii c \<longleftrightarrow> of_char c < (128::nat)"

definition is_continuation :: "char \<Rightarrow> bool" where
  "is_continuation c \<longleftrightarrow> (128::nat) \<le> of_char c \<and> of_char c < (192::nat)"

definition upper_char :: "char \<Rightarrow> char" where
  "upper_char c =
     (if (97::nat) \<le> of_char c \<and> of_char c \<le> (122::nat)
      then char_of (of_char c - (32::nat)) else c)"

definition digit_char :: "nat \<Rightarrow> char" where
  "digit_char d = char_of (48 + d)"

fun str_nat :: "nat \<Rightarrow> string" where
  "str_nat n = (if n < 10 then [digit_char n] else str_nat (n div 10) @ [digit_char (n mod 10)])"

declare str_nat.simps [simp del]

definition str_int :: "int \<Rightarrow> string" where
  "str_int i = (if i < 0 then CHR ''-'' # str_nat (nat (- i)) else str_nat (nat i))"

definition hex_char :: "nat \<Rightarrow> char" where
  "hex_char d = (if d < 10 then char_of (48 + d) else char_of (87 + d))"

section \<open>JSON values and \<^verbatim>\<open>json.dumps\<close>\<close>

text \<open>
  The values JSON text decodes to. A float is stood for by the text \<^verbatim>\<open>repr\<close> gives for it.
  Tool-call arguments are such values; the tools build such values and serialise them.
\<close>

datatype json =
    JNull
  | JBool bool
  | JNum int
  | JFloat string
  | JStr string
  | JArr "json list"
  | JObj "(string \<times> json) list"

text \<open>
  The escape table of \<^verbatim>\<open>json.encoder\<close> for \<^verbatim>\<open>ensure_ascii=False\<close>: backslash, double
  quote and the control characters below 0x20; every other byte is kept.
\<close>

definition json_escape_char :: "char \<Rightarrow> string" where
  "json_escape_char c =
     (if c = CHR 0x5C then [CHR 0x5C, CHR 0x5C]
      else if c = CHR 0x22 then [CHR 0x5C, CHR 0x22]
      else if c = CHR 0x08 then [CHR 0x5C, CHR ''b'']
      else if c = CHR 0x0C then [CHR 0x5C, CHR ''f'']
      else if c = CHR 0x0A then [CHR 0x5C, CHR ''n'']
      else if c = CHR 0x0D then [CHR 0x5C, CHR ''r'']
      else if c = CHR 0x09 then [CHR 0x5C, CHR ''t'']
      else if of_char c < (32::nat) then
        [CHR 0x5C, CHR ''u'', CHR ''0'', CHR ''0'',
         hex_char (of_char c div 16), hex_char (of_char c mod 16)]
      else [c])"

definition json_string :: "string \<Rightarrow> string" where
  "json_string s = [CHR 0x22] @ concat (map json_escape_char s) @ [CHR 0x22]"

text \<open>\<^verbatim>\<open>json.dumps(v, ensure_ascii=False)\<close> with the default separators.\<close>

fun json_dumps :: "json \<Rightarrow> string" where
  "json_dumps JNull = ''null''"
| "json_dumps (JBool b) = (if b then ''true'' else ''false'')"
| "json_dumps (JNum i) = str_int i"
| "json_dumps (JFloat s) = s"
| "json_dumps (JStr s) = json_string s"
| "json_dumps (JArr xs) = ''['' @ py_join '', '' (map json_dumps xs) @ '']''"
| "json_dumps (JObj kvs) =
     ''{'' @ py_join '', '' (map (\<lambda>(k, v). json_string k @ '': '' @ json_dumps v) kvs) @ ''}''"

text \<open>The value of a key of a JSON object.\<close>

fun json_field :: "string \<Rightarrow> json \<Rightarrow> json option" where
  "json_field k (JObj kvs) = map_of kvs k"
| "json_field k j = None"

section \<open>Data model of \<^verbatim>\<open>src/agent/main.py\<close>\<close>

text \<open>
  A ToolCall dictionary of an assistant message: \<^verbatim>\<open>name\<close>, \<^verbatim>\<open>args\<close>, \<^verbatim>\<open>id\<close>. The argument
  dictionary holds whatever JSON values the model sent; it is an association list read
  with \<open>map_of\<close>.
\<close>

record tool_call =
  tc_name :: string
  tc_args :: "(string \<times> json) list"
  tc_id :: string

text \<open>
  Python values that are stored in artifacts and in the controller state, and the
  langchain messages. \<^verbatim>\<open>ToolMessage\<close> carries content, tool_call_id, name and artifact.
\<close>

datatype pyval =
    VNone
  | VBool bool
  | VInt int
  | VFloat string
  | VStr string
  | VList "pyval list"
  | VDict "(string \<times> pyval) list"
  | VMsg message
and message =
    HumanMessage string
  | AIMessage string "tool_call list"
  | SystemMessage string
  | ToolMessage string string "string option" "pyval option"

fun content :: "message \<Rightarrow> string" where
  "content (HumanMessage c) = c"
| "content (AIMessage c tcs) = c"
| "content (SystemMessage c) = c"
| "content (ToolMessage c i n a) = c"

text \<open>
  \<^verbatim>\<open>hasattr(m, 'tool_calls')\<close> holds for assistant messages only; \<open>None\<close> is the missing
  attribute.
\<close>

fun tool_calls :: "message \<Rightarrow> tool_call list option" where
  "tool_calls (AIMessage c tcs) = Some tcs"
| "tool_calls m = None"

fun tool_call_id :: "message \<Rightarrow> string option" where
  "tool_call_id (ToolMessage c i n a) = Some i"
| "tool_call_id m = None"

fun msg_name :: "message \<Rightarrow> string option" where
  "msg_name (ToolMessage c i n a) = n"
| "msg_name m = None"

fun artifact :: "message \<Rightarrow> pyval option" where
  "artifact (ToolMessage c i n a) = a"
| "artifact m = None"

fun is_tool_message :: "message \<Rightarrow> bool" where
  "is_tool_message (ToolMessage c i n a) = True"
| "is_tool_message m = False"

text \<open>The name of the class of a Python value.\<close>

fun py_class_name :: "pyval \<Rightarrow> string" where
  "py_class_name VNone = ''NoneType''"
| "py_class_name (VBool b) = ''bool''"
| "py_class_name (VInt i) = ''int''"
| "py_class_name (VFloat f) = ''float''"
| "py_class_name (VStr s) = ''str''"
| "py_class_name (VList xs) = ''list''"
| "py_class_name (VDict d) = ''dict''"
| "py_class_name (VMsg (HumanMessage c)) = ''HumanMessage''"
| "py_class_name (VMsg (AIMessage c tcs)) = ''AIMessage''"
| "py_class_name (VMsg (SystemMessage c)) = ''SystemMessage''"
| "py_class_name (VMsg (ToolMessage c i n a)) = ''ToolMessage''"

text \<open>A decoded JSON value as a Python value.\<close>

fun pyval_of_json :: "json \<Rightarrow> pyval" where
  "pyval_of_json JNull = VNone"
| "pyval_of_json (JBool b) = VBool b"
| "pyval_of_json (JNum i) = VInt i"
| "pyval_of_json (JFloat f) = VFloat f"
| "pyval_of_json (JStr s) = VStr s"
| "pyval_of_json (JArr xs) = VList (map pyval_of_json xs)"
| "pyval_of_json (JObj kvs) = VDict (map (\<lambda>(k, v). (k, pyval_of_json v)) kvs)"

text \<open>
  \<^verbatim>\<open>GraphState\<close> and \<^verbatim>\<open>SubagentState\<close>, the two TypedDicts. The task is whatever value the
  tool call gave as its description; nothing checks that it is text.
\<close>

record graph_state =
  messages :: "message list"

record subagent_state =
  sub_messages :: "message list"
  task :: json
  result :: string

text \<open>The dictionary a \<^verbatim>\<open>SubagentState\<close> is at run time, keys in insertion order.\<close>

definition subagent_state_dict :: "subagent_state \<Rightarrow> pyval" where
  "subagent_state_dict s =
     VDict [(''messages'', VList (map VMsg (sub_messages s))),
            (''task'', pyval_of_json (task s)),
            (''result'', VStr (result s))]"

section \<open>What the module takes from outside\<close>

text \<open>
  The environment variable \<^verbatim>\<open>OPENAI_API_KEY\<close>; the language model behind \<^verbatim>\<open>llm.ainvoke\<close>,
  which returns the content of its response or raises; Unicode's upper-case mapping for
  text that is not ASCII; Python's \<^verbatim>\<open>str\<close> on a list or a dictionary; and the exception
  that a tool's argument validation raises, given the tool's name and the arguments.
\<close>

record env =
  openai_api_key :: "string option"
  llm_ainvoke :: "message list \<Rightarrow> py_exception + string"
  unicode_upper :: "string \<Rightarrow> string"
  container_str :: "json \<Rightarrow> string"
  validation_error :: "string \<Rightarrow> (string \<times> json) list \<Rightarrow> py_exception"

text \<open>\<^verbatim>\<open>s.upper()\<close>: computed here for ASCII text, taken from the environment otherwise.\<close>

definition py_upper :: "env \<Rightarrow> string \<Rightarrow> string" where
  "py_upper e s = (if list_all is_ascii s then map upper_char s else unicode_upper e s)"

text \<open>\<^verbatim>\<open>str(v)\<close>, which is also how an f-string shows \<open>v\<close>.\<close>

fun py_str :: "env \<Rightarrow> json \<Rightarrow> string" where
  "py_str e JNull = ''None''"
| "py_str e (JBool b) = (if b then ''True'' else ''False'')"
| "py_str e (JNum i) = str_int i"
| "py_str e (JFloat f) = f"
| "py_str e (JStr s) = s"
| "py_str e (JArr xs) = container_str e (JArr xs)"
| "py_str e (JObj kvs) = container_str e (JObj kvs)"

section \<open>The tools\<close>

text \<open>
  The state of Python's global random number generator is the sequence of raw draws
  still to come. \<^verbatim>\<open>random.randint(a, b)\<close> and \<^verbatim>\<open>random.choice(xs)\<close> each take the next
  draw and map it into their range.
\<close>

type_synonym rng = "nat \<Rightarrow> nat"

definition randint :: "int \<Rightarrow> int \<Rightarrow> rng \<Rightarrow> int \<times> rng" where
  "randint a b r = (a + int (r 0) mod (b - a + 1), \<lambda>n. r (Suc n))"

definition choice :: "'a list \<Rightarrow> rng \<Rightarrow> 'a \<times> rng" where
  "choice xs r = (xs ! (r 0 mod length xs), \<lambda>n. r (Suc n))"

text \<open>
  \<^verbatim>\<open>get_weather\<close>: the dictionary \<^verbatim>\<open>weather_data\<close>, given the values drawn and the
  upper-cased first character of the unit. Between the temperature and that character
  the source file holds the two characters U+00AC and U+221E, in UTF-8 the bytes C2 AC
  E2 88 9E.
\<close>

definition weather_data ::
  "string \<Rightarrow> int \<Rightarrow> string \<Rightarrow> string \<Rightarrow> string \<Rightarrow> int \<Rightarrow> int \<Rightarrow> json" where
  "weather_data location temp unit unit0_upper condition humidity wind =
     JObj [(''location'', JStr location),
           (''temperature'', JNum temp),
           (''unit'', JStr unit),
           (''condition'', JStr condition),
           (''humidity'', JNum humidity),
           (''windSpeed'', JNum wind),
           (''description'', JStr (''The weather in '' @ location @ '' is '' @ condition
              @ '' with a temperature of '' @ str_int temp
              @ [CHR 0xC2, CHR 0xAC, CHR 0xE2, CHR 0x88, CHR 0x9E] @ unit0_upper @ ''.''))]"

text \<open>
  The four draws are made before \<^verbatim>\<open>unit[0]\<close> is read, which raises \<^verbatim>\<open>IndexError\<close> on the
  empty string. The first character of a text is its first byte and the continuation
  bytes that follow it.
\<close>

definition get_weather ::
  "env \<Rightarrow> rng \<Rightarrow> string \<Rightarrow> string \<Rightarrow> (py_exception + string) \<times> rng" where
  "get_weather e r location unit =
     (let (temp, r1) = randint 10 30 r;
          conditions = [''sunny'', ''cloudy'', ''rainy'', ''partly cloudy'', ''overcast''];
          (condition, r2) = choice conditions r1;
          (humidity, r3) = randint 40 80 r2;
          (wind, r4) = randint 5 25 r3
      in case unit of
           [] \<Rightarrow> (Inl (PyException ''IndexError'' ''string index out of range''), r4)
         | b # bs \<Rightarrow>
             (Inr (json_dumps
                     (weather_data location temp unit
                        (py_upper e (b # takeWhile is_continuation bs))
                        condition humidity wind)), r4))"

definition products :: json where
  "products =
     JArr [JObj [(''id'', JNum 1), (''name'', JStr ''Product 1''), (''price'', JNum 100)],
           JObj [(''id'', JNum 2), (''name'', JStr ''Product 2''), (''price'', JNum 200)],
           JObj [(''id'', JNum 3), (''name'', JStr ''Product 3''), (''price'', JNum 300)]]"

definition data_table :: json where
  "data_table =
     JObj [(''data'', products),
           (''columns'', JArr [JStr ''id'', JStr ''name'', JStr ''price'']),
           (''row_id_key'', JStr ''id''),
           (''description'', JStr ''Products data table'')]"

definition search_products :: "rng \<Rightarrow> string \<Rightarrow> (py_exception + string) \<times> rng" where
  "search_products r query = (Inr (json_dumps data_table), r)"

definition display_graph :: "rng \<Rightarrow> string \<Rightarrow> (py_exception + string) \<times> rng" where
  "display_graph r plot_type =
     (if plot_type = ''bar'' then
        (Inr (json_dumps (JObj
           [(''labels'', JArr [JStr ''Q1'', JStr ''Q2'', JStr ''Q3'', JStr ''Q4'']),
            (''values'', JArr [JNum 120, JNum 150, JNum 180, JNum 200]),
            (''title'', JStr ''Quarterly Sales''),
            (''xlabel'', JStr ''Quarter''),
            (''ylabel'', JStr ''Sales (thousands)'')])), r)
      else if plot_type = ''line'' then
        (Inr (json_dumps (JObj
           [(''labels'', JArr [JStr ''Jan'', JStr ''Feb'', JStr ''Mar'', JStr ''Apr'',
                                 JStr ''May'', JStr ''Jun'']),
            (''values'', JArr [JNum 45, JNum 52, JNum 48, JNum 61, JNum 55, JNum 67]),
            (''title'', JStr ''Monthly Revenue Trend''),
            (''xlabel'', JStr ''Month''),
            (''ylabel'', JStr ''Revenue (thousands)'')])), r)
      else if plot_type = ''pie'' then
        (Inr (json_dumps (JObj
           [(''labels'', JArr [JStr ''Product A'', JStr ''Product B'', JStr ''Product C'',
                                 JStr ''Product D'']),
            (''values'', JArr [JNum 30, JNum 25, JNum 20, JNum 25]),
            (''title'', JStr ''Product Sales Distribution'')])), r)
      else
        (Inr (json_dumps (JObj [(''error'', JStr (''Unsupported plot type: '' @ plot_type))])), r))"

text \<open>
  \<^verbatim>\<open>.invoke\<close> of the three \<^verbatim>\<open>@tool\<close> objects, with the arguments the tools node passes.
  Every parameter is declared \<^verbatim>\<open>str\<close>: an argument that is not text fails validation,
  before the function runs, and text is passed on to the function.
\<close>

definition get_weather_invoke ::
  "env \<Rightarrow> rng \<Rightarrow> json \<Rightarrow> json \<Rightarrow> (py_exception + string) \<times> rng" where
  "get_weather_invoke e r location unit =
     (case location of
        JStr l \<Rightarrow>
          (case unit of
             JStr u \<Rightarrow> get_weather e r l u
           | _ \<Rightarrow> (Inl (validation_error e ''get_weather''
                            [(''location'', location), (''unit'', unit)]), r))
      | _ \<Rightarrow> (Inl (validation_error e ''get_weather''
                       [(''location'', location), (''unit'', unit)]), r))"

definition search_products_invoke ::
  "env \<Rightarrow> rng \<Rightarrow> json \<Rightarrow> (py_exception + string) \<times> rng" where
  "search_products_invoke e r query =
     (case query of
        JStr q \<Rightarrow> search_products r q
      | _ \<Rightarrow> (Inl (validation_error e ''search_products'' [(''query'', query)]), r))"

definition display_graph_invoke ::
  "env \<Rightarrow> rng \<Rightarrow> json \<Rightarrow> (py_exception + string) \<times> rng" where
  "display_graph_invoke e r plot_type =
     (case plot_type of
        JStr p \<Rightarrow> display_graph r p
      | _ \<Rightarrow> (Inl (validation_error e ''display_graph'' [(''plot_type'', plot_type)]), r))"

section \<open>The sub-computation\<close>

text \<open>
  \<^verbatim>\<open>ChatOpenAI(...)\<close>: building the client raises when \<^verbatim>\<open>OPENAI_API_KEY\<close> is not set.
\<close>

definition ChatOpenAI :: "env \<Rightarrow> py_exception + unit" where
  "ChatOpenAI e =
     (case openai_api_key e of
        None \<Rightarrow>
          Inl (PyException ''OpenAIError''
                 (''The api_key client option must be set either by passing api_key to the ''
                  @ ''client or by setting the OPENAI_API_KEY environment variable''))
      | Some k \<Rightarrow> Inr ())"

text \<open>\<^verbatim>\<open>os.getenv(k)\<close> in a condition: set and not empty.\<close>

definition getenv_truthy :: "string option \<Rightarrow> bool" where
  "getenv_truthy v = (case v of None \<Rightarrow> False | Some s \<Rightarrow> s \<noteq> [])"

text \<open>The update a node returns for a \<^verbatim>\<open>SubagentState\<close>: the keys messages and result.\<close>

record subagent_update =
  upd_messages :: "message list"
  upd_result :: string

text \<open>The client is built first; only then is the environment variable looked at.\<close>

definition subagent_node :: "env \<Rightarrow> subagent_state \<Rightarrow> py_exception + subagent_update" where
  "subagent_node e state =
     (case ChatOpenAI e of
        Inl ex \<Rightarrow> Inl ex
      | Inr llm \<Rightarrow>
          (let subagent_messages =
                 [SystemMessage (''You are a helpful subagent. Execute this task: ''
                                   @ py_str e (task state)),
                  HumanMessage (''Please complete the following task: ''
                                  @ py_str e (task state))]
           in if getenv_truthy (openai_api_key e) then
                (case llm_ainvoke e subagent_messages of
                   Inl ex \<Rightarrow> Inl ex
                 | Inr res \<Rightarrow> Inr \<lparr>upd_messages = [AIMessage res []], upd_result = res\<rparr>)
              else
                (let res = ''Mock subagent result for task: '' @ py_str e (task state)
                 in Inr \<lparr>upd_messages = [AIMessage res []], upd_result = res\<rparr>)))"

text \<open>The \<^verbatim>\<open>add_messages\<close> reducer on messages that carry no id: the new ones are appended.\<close>

definition add_messages :: "message list \<Rightarrow> message list \<Rightarrow> message list" where
  "add_messages left right = left @ right"

text \<open>
  \<^verbatim>\<open>create_subagent_graph().ainvoke\<close>: the entry node \<^verbatim>\<open>execute_task\<close> runs once, its update
  is merged into the state (\<^verbatim>\<open>add_messages\<close> on messages, overwrite on result), and the
  edge to \<^verbatim>\<open>END\<close> ends the run.
\<close>

definition subagent_graph :: "env \<Rightarrow> subagent_state \<Rightarrow> py_exception + subagent_state" where
  "subagent_graph e state =
     (case subagent_node e state of
        Inl ex \<Rightarrow> Inl ex
      | Inr upd \<Rightarrow>
          Inr (state\<lparr>sub_messages := add_messages (sub_messages state) (upd_messages upd),
                     result := upd_result upd\<rparr>))"

section \<open>The tools node\<close>

text \<open>
  The names the tools node resolves when it runs: the three tools behind \<^verbatim>\<open>.invoke\<close>, the
  compiled \<^verbatim>\<open>subagent_graph\<close> behind \<^verbatim>\<open>.ainvoke\<close>, and the conversion an f-string applies to
  a value. The node is modelled over any binding of them; \<open>module_registry\<close> is the
  binding the module itself makes.
\<close>

record tool_registry =
  reg_get_weather :: "rng \<Rightarrow> json \<Rightarrow> json \<Rightarrow> (py_exception + string) \<times> rng"
  reg_search_products :: "rng \<Rightarrow> json \<Rightarrow> (py_exception + string) \<times> rng"
  reg_display_graph :: "rng \<Rightarrow> json \<Rightarrow> (py_exception + string) \<times> rng"
  reg_subagent_graph :: "subagent_state \<Rightarrow> py_exception + subagent_state"
  reg_format :: "json \<Rightarrow> string"

definition module_registry :: "env \<Rightarrow> tool_registry" where
  "module_registry e =
     \<lparr>reg_get_weather = get_weather_invoke e,
      reg_search_products = search_products_invoke e,
      reg_display_graph = display_graph_invoke e,
      reg_subagent_graph = subagent_graph e,
      reg_format = py_str e\<rparr>"

text \<open>
  What a run of the node can change: the random number generator, and the log of the
  sub-computations started so far (each entry is the state \<^verbatim>\<open>ainvoke\<close> was called with).
\<close>

record world =
  rng_state :: rng
  spawned :: "subagent_state list"

text \<open>\<^verbatim>\<open>d.get(k, default)\<close>.\<close>

definition dict_get :: "('k \<times> 'v) list \<Rightarrow> 'k \<Rightarrow> 'v \<Rightarrow> 'v" where
  "dict_get d k dflt = (case map_of d k of None \<Rightarrow> dflt | Some v \<Rightarrow> v)"

text \<open>
  The body of the loop over \<^verbatim>\<open>last_message.tool_calls\<close>: the tool message that is appended
  for one tool call. Only the call of the sub-computation stands outside a \<^verbatim>\<open>try\<close>.
\<close>

definition execute_tool_call ::
  "tool_registry \<Rightarrow> world \<Rightarrow> tool_call \<Rightarrow> (py_exception + message) \<times> world" where
  "execute_tool_call reg w tool_call =
     (if tc_name tool_call = ''task_tool'' then
        (let task_description = dict_get (tc_args tool_call) ''task_description'' (JStr []);
             subagent_state = \<lparr>sub_messages = [], task = task_description, result = []\<rparr>;
             w' = w\<lparr>spawned := spawned w @ [subagent_state]\<rparr>
         in case reg_subagent_graph reg subagent_state of
              Inl ex \<Rightarrow> (Inl ex, w')
            | Inr final_state \<Rightarrow>
                (Inr (ToolMessage (result final_state) (tc_id tool_call)
                        (Some (tc_name tool_call))
                        (Some (VDict [(''subgraph_state'', subagent_state_dict final_state)]))),
                 w'))
      else if tc_name tool_call = ''get_weather'' then
        (let location = dict_get (tc_args tool_call) ''location'' (JStr ''unknown'');
             unit = dict_get (tc_args tool_call) ''unit'' (JStr ''celsius'')
         in case reg_get_weather reg (rng_state w) location unit of
              (Inr weather_result, r) \<Rightarrow>
                (Inr (ToolMessage weather_result (tc_id tool_call)
                        (Some (tc_name tool_call)) None),
                 w\<lparr>rng_state := r\<rparr>)
            | (Inl ex, r) \<Rightarrow>
                (Inr (ToolMessage
                        (''Error fetching weather for '' @ reg_format reg location @ '': ''
                           @ exc_str ex)
                        (tc_id tool_call) (Some (tc_name tool_call)) None),
                 w\<lparr>rng_state := r\<rparr>))
      else if tc_name tool_call = ''search_products'' then
        (let query = dict_get (tc_args tool_call) ''query'' (JStr [])
         in case reg_search_products reg (rng_state w) query of
              (Inr search_products_result, r) \<Rightarrow>
                (Inr (ToolMessage search_products_result (tc_id tool_call)
                        (Some (tc_name tool_call)) None),
                 w\<lparr>rng_state := r\<rparr>)
            | (Inl ex, r) \<Rightarrow>
                (Inr (ToolMessage
                        (''Error searching products for '' @ reg_format reg query @ '': ''
                           @ exc_str ex)
                        (tc_id tool_call) (Some (tc_name tool_call)) None),
                 w\<lparr>rng_state := r\<rparr>))
      else if tc_name tool_call = ''display_graph'' then
        (let plot_type = dict_get (tc_args tool_call) ''plot_type'' (JStr ''bar'')
         in case reg_display_graph reg (rng_state w) plot_type of
              (Inr graph_result, r) \<Rightarrow>
                (Inr (ToolMessage graph_result (tc_id tool_call)
                        (Some (tc_name tool_call)) None),
                 w\<lparr>rng_state := r\<rparr>)
            | (Inl ex, r) \<Rightarrow>
                (Inr (ToolMessage
                        (''Error displaying graph with plot_type '' @ reg_format reg plot_type
                           @ '': '' @ exc_str ex)
                        (tc_id tool_call) (Some (tc_name tool_call)) None),
                 w\<lparr>rng_state := r\<rparr>))
      else
        (Inr (ToolMessage (''Executed tool '' @ tc_name tool_call) (tc_id tool_call)
                (Some (tc_name tool_call)) None),
         w))"

text \<open>The loop: an exception that leaves the body ends it.\<close>

fun run_tool_calls ::
  "tool_registry \<Rightarrow> world \<Rightarrow> tool_call list \<Rightarrow> message list
     \<Rightarrow> (py_exception + message list) \<times> world" where
  "run_tool_calls reg w [] tool_messages = (Inr tool_messages, w)"
| "run_tool_calls reg w (tool_call # rest) tool_messages =
     (case execute_tool_call reg w tool_call of
        (Inl ex, w') \<Rightarrow> (Inl ex, w')
      | (Inr tool_message, w') \<Rightarrow> run_tool_calls reg w' rest (tool_messages @ [tool_message]))"

text \<open>\<^verbatim>\<open>tool_executor_node\<close>; the result is the list under the key messages.\<close>

definition tool_executor_node ::
  "tool_registry \<Rightarrow> world \<Rightarrow> graph_state \<Rightarrow> (py_exception + message list) \<times> world" where
  "tool_executor_node reg w state =
     (if messages state = [] then (Inr [], w)
      else case tool_calls (last (messages state)) of
             None \<Rightarrow> (Inr [], w)
           | Some tcs \<Rightarrow> if tcs = [] then (Inr [], w) else run_tool_calls reg w tcs [])"

section \<open>The execution graph\<close>

definition should_call_tools :: "graph_state \<Rightarrow> string" where
  "should_call_tools state =
     (if messages state = [] then ''end''
      else case tool_calls (last (messages state)) of
             Some tcs \<Rightarrow> if tcs \<noteq> [] then ''tools'' else ''end''
           | None \<Rightarrow> ''end'')"

text \<open>
  A \<^verbatim>\<open>StateGraph\<close> under construction: node names, entry point, conditional edges (source,
  router, path map) and plain edges. \<open>END\<close> is langgraph's end marker.
\<close>

record workflow =
  wf_nodes :: "string list"
  wf_entry :: "string option"
  wf_branches :: "(string \<times> (graph_state \<Rightarrow> string) \<times> (string \<times> string) list) list"
  wf_edges :: "(string \<times> string) list"

definition END :: string where
  "END = ''__end__''"

definition StateGraph :: workflow where
  "StateGraph = \<lparr>wf_nodes = [], wf_entry = None, wf_branches = [], wf_edges = []\<rparr>"

definition add_node :: "string \<Rightarrow> workflow \<Rightarrow> workflow" where
  "add_node n g = g\<lparr>wf_nodes := wf_nodes g @ [n]\<rparr>"

definition set_entry_point :: "string \<Rightarrow> workflow \<Rightarrow> workflow" where
  "set_entry_point n g = g\<lparr>wf_entry := Some n\<rparr>"

definition add_conditional_edges ::
  "string \<Rightarrow> (graph_state \<Rightarrow> string) \<Rightarrow> (string \<times> string) list \<Rightarrow> workflow \<Rightarrow> workflow" where
  "add_conditional_edges src router path_map g =
     g\<lparr>wf_branches := wf_branches g @ [(src, router, path_map)]\<rparr>"

definition add_edge :: "string \<Rightarrow> string \<Rightarrow> workflow \<Rightarrow> workflow" where
  "add_edge src dst g = g\<lparr>wf_edges := wf_edges g @ [(src, dst)]\<rparr>"

definition create_graph :: workflow where
  "create_graph =
     add_edge ''tools'' ''agent''
       (add_conditional_edges ''agent'' should_call_tools
          [(''tools'', ''tools''), (''end'', END)]
          (set_entry_point ''agent''
             (add_node ''tools'' (add_node ''agent'' StateGraph))))"

text \<open>
  Where the compiled graph goes after node \<open>n\<close> has run and left the state \<open>st\<close>: along the
  plain edges out of \<open>n\<close>, and for each conditional edge out of \<open>n\<close> to the target its
  path map gives for the router's answer.
\<close>

definition next_nodes :: "workflow \<Rightarrow> string \<Rightarrow> graph_state \<Rightarrow> string list" where
  "next_nodes g n st =
     map snd (filter (\<lambda>(src, dst). src = n) (wf_edges g))
     @ concat (map (\<lambda>(src, router, path_map).
                      if src = n then (case map_of path_map (router st) of
                                         None \<Rightarrow> [] | Some dst \<Rightarrow> [dst])
                      else [])
                 (wf_branches g))"

section \<open>The request and the start of \<^verbatim>\<open>run_callback\<close>\<close>

record message_part =
  part_type :: string
  part_text :: "string option"
  part_image :: "string option"

record user_message =
  um_role :: string
  um_parts :: "message_part list"

text \<open>
  The two command classes. Each has a free-text \<^verbatim>\<open>type\<close> field, its first argument
  here, so the field need not agree with the class.
\<close>

datatype command =
    AddMessageCommand string user_message
  | AddToolResultCommand string string "(string \<times> pyval) list"

fun command_type :: "command \<Rightarrow> string" where
  "command_type (AddMessageCommand t m) = t"
| "command_type (AddToolResultCommand t i r) = t"

record chat_request =
  req_commands :: "command list"
  req_system :: "string option"
  req_tools :: "(string \<times> pyval) list option"
  req_runConfig :: "(string \<times> pyval) list option"
  req_state :: "(string \<times> pyval) list option"

text \<open>Reading an attribute the object's class does not have, and a key a dictionary lacks.\<close>

definition attribute_error :: "string \<Rightarrow> string \<Rightarrow> py_exception" where
  "attribute_error cls attr =
     PyException ''AttributeError''
       ([CHR 0x27] @ cls @ [CHR 0x27] @ '' object has no attribute '' @ [CHR 0x27] @ attr
          @ [CHR 0x27])"

definition key_error :: "string \<Rightarrow> py_exception" where
  "key_error k = PyException ''KeyError'' ([CHR 0x27] @ k @ [CHR 0x27])"

text \<open>A string or \<^verbatim>\<open>None\<close> in a condition: true for a non-empty string.\<close>

definition truthy :: "string option \<Rightarrow> bool" where
  "truthy v = (case v of None \<Rightarrow> False | Some s \<Rightarrow> s \<noteq> [])"

definition text_parts :: "user_message \<Rightarrow> string list" where
  "text_parts m =
     map (\<lambda>part. case part_text part of None \<Rightarrow> [] | Some t \<Rightarrow> t)
       (filter (\<lambda>part. part_type part = ''text'' \<and> truthy (part_text part)) (um_parts m))"

text \<open>
  The body of the loop over \<^verbatim>\<open>request.commands\<close>, from \<^verbatim>\<open>input_messages\<close> before to
  \<^verbatim>\<open>input_messages\<close> after. \<open>str_dict\<close> is Python's \<^verbatim>\<open>str\<close> on a dictionary.
\<close>

fun process_command ::
  "((string \<times> pyval) list \<Rightarrow> string) \<Rightarrow> command \<Rightarrow> message list
     \<Rightarrow> py_exception + message list" where
  "process_command str_dict (AddMessageCommand t m) input_messages =
     (if t = ''add-message'' then
        (if text_parts m \<noteq> [] then
           Inr (input_messages @ [HumanMessage (py_join '' '' (text_parts m))])
         else Inr input_messages)
      else if t = ''add-tool-result'' then
        Inl (attribute_error ''AddMessageCommand'' ''result'')
      else Inr input_messages)"
| "process_command str_dict (AddToolResultCommand t i r) input_messages =
     (if t = ''add-message'' then
        Inl (attribute_error ''AddToolResultCommand'' ''message'')
      else if t = ''add-tool-result'' then
        Inr (input_messages @ [ToolMessage (str_dict r) i None None])
      else Inr input_messages)"

fun process_commands ::
  "((string \<times> pyval) list \<Rightarrow> string) \<Rightarrow> command list \<Rightarrow> message list
     \<Rightarrow> py_exception + message list" where
  "process_commands str_dict [] input_messages = Inr input_messages"
| "process_commands str_dict (c # cs) input_messages =
     (case process_command str_dict c input_messages of
        Inl ex \<Rightarrow> Inl ex
      | Inr input_messages' \<Rightarrow> process_commands str_dict cs input_messages')"

text \<open>
  The first lines of \<^verbatim>\<open>run_callback\<close>: the controller's state, which \<^verbatim>\<open>create_run\<close> set to
  \<^verbatim>\<open>request.state\<close>, becomes a dictionary with a messages key.
\<close>

definition init_controller_state :: "(string \<times> pyval) list option \<Rightarrow> (string \<times> pyval) list" where
  "init_controller_state st =
     (let state = (case st of None \<Rightarrow> [] | Some d \<Rightarrow> d)
      in if map_of state ''messages'' = None then state @ [(''messages'', VList [])]
         else state)"

text \<open>\<^verbatim>\<open>d[k] = v\<close> for a key that is present.\<close>

fun dict_set :: "('k \<times> 'v) list \<Rightarrow> 'k \<Rightarrow> 'v \<Rightarrow> ('k \<times> 'v) list" where
  "dict_set [] k v = [(k, v)]"
| "dict_set ((k', v') # d) k v = (if k' = k then (k, v) # d else (k', v') # dict_set d k v)"

text \<open>
  \<^verbatim>\<open>controller.state["messages"].append(message.model_dump())\<close> for each input message;
  \<open>model_dump\<close> is pydantic's. A value under messages that is not a list has no
  \<^verbatim>\<open>append\<close>.
\<close>

fun append_dumps ::
  "(message \<Rightarrow> pyval) \<Rightarrow> (string \<times> pyval) list \<Rightarrow> message list
     \<Rightarrow> py_exception + (string \<times> pyval) list" where
  "append_dumps model_dump state [] = Inr state"
| "append_dumps model_dump state (m # ms) =
     (case map_of state ''messages'' of
        None \<Rightarrow> Inl (key_error ''messages'')
      | Some (VList xs) \<Rightarrow>
          append_dumps model_dump (dict_set state ''messages'' (VList (xs @ [model_dump m]))) ms
      | Some v \<Rightarrow> Inl (attribute_error (py_class_name v) ''append''))"

text \<open>
  \<^verbatim>\<open>run_callback\<close> up to the call of \<^verbatim>\<open>graph.astream\<close>: the controller state at that
  point, and \<^verbatim>\<open>input_state\<close>, the state the graph is started with.
\<close>

definition run_callback_start ::
  "((string \<times> pyval) list \<Rightarrow> string) \<Rightarrow> (message \<Rightarrow> pyval) \<Rightarrow> chat_request
     \<Rightarrow> py_exception + ((string \<times> pyval) list \<times> graph_state)" where
  "run_callback_start str_dict model_dump request =
     (let state0 = init_controller_state (req_state request)
      in case process_commands str_dict (req_commands request) [] of
           Inl ex \<Rightarrow> Inl ex
         | Inr input_messages \<Rightarrow>
             (case append_dumps model_dump state0 input_messages of
                Inl ex \<Rightarrow> Inl ex
              | Inr state1 \<Rightarrow> Inr (state1, \<lparr>messages = input_messages\<rparr>)))"

section \<open>Notions used in the statements\<close>

text \<open>
  The tool calls the latest message of a state carries: none for an empty history and
  for a latest message that is not an assistant message.
\<close>

definition latest_tool_calls :: "graph_state \<Rightarrow> tool_call list" where
  "latest_tool_calls st =
     (if messages st = [] then []
      else case tool_calls (last (messages st)) of None \<Rightarrow> [] | Some tcs \<Rightarrow> tcs)"

text \<open>The state a \<^verbatim>\<open>task_tool\<close> call starts its sub-computation with.\<close>

definition subagent_input :: "tool_call \<Rightarrow> subagent_state" where
  "subagent_input tc =
     \<lparr>sub_messages = [],
      task = dict_get (tc_args tc) ''task_description'' (JStr []),
      result = []\<rparr>"

text \<open>
  The backend tool that \<open>tc\<close> names raises \<open>ex\<close> when it is invoked, in the world \<open>w\<close>, with
  the arguments the tools node passes to it.
\<close>

definition tool_raises :: "tool_registry \<Rightarrow> world \<Rightarrow> tool_call \<Rightarrow> py_exception \<Rightarrow> bool" where
  "tool_raises reg w tc ex \<longleftrightarrow>
     (tc_name tc = ''get_weather'' \<and>
        fst (reg_get_weather reg (rng_state w)
               (dict_get (tc_args tc) ''location'' (JStr ''unknown''))
               (dict_get (tc_args tc) ''unit'' (JStr ''celsius''))) = Inl ex)
     \<or> (tc_name tc = ''search_products'' \<and>
        fst (reg_search_products reg (rng_state w) (dict_get (tc_args tc) ''query'' (JStr [])))
          = Inl ex)
     \<or> (tc_name tc = ''display_graph'' \<and>
        fst (reg_display_graph reg (rng_state w)
               (dict_get (tc_args tc) ''plot_type'' (JStr ''bar''))) = Inl ex)"

text \<open>
  A name that is none of the four tools the node knows, and an argument that is text or
  is not given.
\<close>

definition unknown_tool :: "string \<Rightarrow> bool" where
  "unknown_tool n \<longleftrightarrow>
     n \<noteq> ''task_tool'' \<and> n \<noteq> ''get_weather'' \<and> n \<noteq> ''search_products''
     \<and> n \<noteq> ''display_graph''"

definition text_or_absent :: "(string \<times> json) list \<Rightarrow> string \<Rightarrow> bool" where
  "text_or_absent args k =
     (case map_of args k of None \<Rightarrow> True | Some (JStr s) \<Rightarrow> True | Some v \<Rightarrow> False)"

text \<open>
  Two environments with an API key: in one the language model answers, in the other it
  cannot be reached. Their last three fields are stand-ins; no example below reaches
  them. And a world in which nothing has run yet.
\<close>

definition answering_env :: env where
  "answering_env =
     \<lparr>openai_api_key = Some ''sk-test'',
      llm_ainvoke = (\<lambda>msgs. Inr ''Total sales: 650''),
      unicode_upper = (\<lambda>s. s),
      container_str = (\<lambda>v. ''[...]''),
      validation_error = (\<lambda>n args. PyException ''ValidationError'' n)\<rparr>"

definition failing_llm_env :: env where
  "failing_llm_env =
     \<lparr>openai_api_key = Some ''sk-test'',
      llm_ainvoke = (\<lambda>msgs. Inl (PyException ''APIConnectionError'' ''Connection error.'')),
      unicode_upper = (\<lambda>s. s),
      container_str = (\<lambda>v. ''[...]''),
      validation_error = (\<lambda>n args. PyException ''ValidationError'' n)\<rparr>"

definition world0 :: world where
  "world0 = \<lparr>rng_state = id, spawned = []\<rparr>"

text \<open>A weather request whose unit is the empty string, and a history that ends in it.\<close>

definition weather_call_no_unit :: tool_call where
  "weather_call_no_unit =
     \<lparr>tc_name = ''get_weather'',
      tc_args = [(''location'', JStr ''Tokyo''), (''unit'', JStr [])],
      tc_id = ''call_1''\<rparr>"

definition weather_state :: graph_state where
  "weather_state =
     \<lparr>messages = [HumanMessage ''weather?'', AIMessage [] [weather_call_no_unit]]\<rparr>"

definition index_error :: py_exception where
  "index_error = PyException ''IndexError'' ''string index out of range''"

text \<open>
  A history whose latest message asks for a chart, for an unknown tool and for a
  delegation.
\<close>

definition graph_call :: tool_call where
  "graph_call =
     \<lparr>tc_name = ''display_graph'', tc_args = [(''plot_type'', JStr ''pie'')],
      tc_id = ''call_a''\<rparr>"

definition unknown_call :: tool_call where
  "unknown_call = \<lparr>tc_name = ''send_email'', tc_args = [], tc_id = ''call_b''\<rparr>"

definition task_call :: tool_call where
  "task_call =
     \<lparr>tc_name = ''task_tool'', tc_args = [(''task_description'', JStr ''sum the sales'')],
      tc_id = ''call_c''\<rparr>"

definition mixed_state :: graph_state where
  "mixed_state = \<lparr>messages = [AIMessage ''ok'' [graph_call, unknown_call, task_call]]\<rparr>"

text \<open>
  What the delegation \<open>task_call\<close> gives when the language model answers: the final state
  of its sub-computation and the tool message. A product search, and a history that ends
  in it. A weather request that names no unit.
\<close>

definition task_final_state :: subagent_state where
  "task_final_state =
     \<lparr>sub_messages = [AIMessage ''Total sales: 650'' []],
      task = JStr ''sum the sales'',
      result = ''Total sales: 650''\<rparr>"

definition task_message :: message where
  "task_message =
     ToolMessage ''Total sales: 650'' ''call_c'' (Some ''task_tool'')
       (Some (VDict [(''subgraph_state'', subagent_state_dict task_final_state)]))"

definition products_call :: tool_call where
  "products_call =
     \<lparr>tc_name = ''search_products'', tc_args = [(''query'', JStr ''shoes'')],
      tc_id = ''call_p''\<rparr>"

definition products_state :: graph_state where
  "products_state = \<lparr>messages = [HumanMessage ''shoes?'', AIMessage [] [products_call]]\<rparr>"

definition weather_call :: tool_call where
  "weather_call =
     \<lparr>tc_name = ''get_weather'', tc_args = [(''location'', JStr ''Tokyo'')],
      tc_id = ''call_w''\<rparr>"

text \<open>
  A command whose \<^verbatim>\<open>type\<close> field does not ask for an attribute its class lacks, and the
  input messages one command contributes.
\<close>

fun consistent :: "command \<Rightarrow> bool" where
  "consistent (AddMessageCommand t m) = (t \<noteq> ''add-tool-result'')"
| "consistent (AddToolResultCommand t i r) = (t \<noteq> ''add-message'')"

fun contribution :: "((string \<times> pyval) list \<Rightarrow> string) \<Rightarrow> command \<Rightarrow> message list" where
  "contribution str_dict (AddMessageCommand t m) =
     (if t = ''add-message'' \<and> text_parts m \<noteq> []
      then [HumanMessage (py_join '' '' (text_parts m))] else [])"
| "contribution str_dict (AddToolResultCommand t i r) =
     (if t = ''add-tool-result'' then [ToolMessage (str_dict r) i None None] else [])"

text \<open>
  Requests for the examples: a stand-in for \<^verbatim>\<open>str\<close> on dictionaries, a user message that
  holds an image only, one with two text parts, and a tool result.
\<close>

definition str_stub :: "(string \<times> pyval) list \<Rightarrow> string" where
  "str_stub d = ''{...}''"

definition image_command :: command where
  "image_command =
     AddMessageCommand ''add-message''
       \<lparr>um_role = ''user'',
        um_parts = [\<lparr>part_type = ''image'', part_text = None, part_image = Some ''cat.png''\<rparr>]\<rparr>"

definition two_part_command :: command where
  "two_part_command =
     AddMessageCommand ''add-message''
       \<lparr>um_role = ''user'',
        um_parts = [\<lparr>part_type = ''text'', part_text = Some ''Hello'', part_image = None\<rparr>,
                    \<lparr>part_type = ''text'', part_text = Some ''world'', part_image = None\<rparr>]\<rparr>"

definition result_command :: command where
  "result_command = AddToolResultCommand ''add-tool-result'' ''call_p'' [(''ok'', VInt 1)]"

definition replay_request :: chat_request where
  "replay_request =
     \<lparr>req_commands = [two_part_command, image_command, result_command],
      req_system = None, req_tools = None, req_runConfig = None,
      req_state = Some [(''messages'', VList [VStr ''earlier''])]\<rparr>"

section \<open>Lemmas about the tools node\<close>

lemma execute_tool_call_Inl:
  assumes "execute_tool_call reg w tc = (Inl ex, w')"
  shows "tc_name tc = ''task_tool'' \<and> reg_subagent_graph reg (subagent_input tc) = Inl ex"
  using assms
  by (auto simp: execute_tool_call_def subagent_input_def Let_def
      split: if_splits sum.splits prod.splits)

lemma execute_tool_call_Inr:
  assumes "execute_tool_call reg w tc = (Inr m, w')"
  shows "\<exists>c a. m = ToolMessage c (tc_id tc) (Some (tc_name tc)) a"
  using assms
  by (auto simp: execute_tool_call_def Let_def split: if_splits sum.splits prod.splits)

lemma execute_tool_call_returns:
  assumes "tc_name tc = ''task_tool'' \<longrightarrow> (\<forall>ex. reg_subagent_graph reg (subagent_input tc) \<noteq> Inl ex)"
  shows "\<exists>m w'. execute_tool_call reg w tc = (Inr m, w')"
proof (cases "execute_tool_call reg w tc")
  case (Pair res w')
  show ?thesis
  proof (cases res)
    case (Inl ex)
    with Pair assms execute_tool_call_Inl [of reg w tc ex w'] show ?thesis by auto
  next
    case (Inr m)
    with Pair show ?thesis by auto
  qed
qed

lemma execute_tool_call_unknown:
  assumes "unknown_tool (tc_name tc)"
  shows "execute_tool_call reg w tc
     = (Inr (ToolMessage (''Executed tool '' @ tc_name tc) (tc_id tc) (Some (tc_name tc)) None),
        w)"
  using assms by (simp add: execute_tool_call_def unknown_tool_def)

lemma execute_tool_call_fault:
  assumes "tool_raises reg w tc ex"
  shows "\<exists>p r. p \<noteq> [] \<and> execute_tool_call reg w tc
           = (Inr (ToolMessage (p @ exc_str ex) (tc_id tc) (Some (tc_name tc)) None),
              w\<lparr>rng_state := r\<rparr>)"
proof -
  consider
    (weather) "tc_name tc = ''get_weather''"
      "fst (reg_get_weather reg (rng_state w)
               (dict_get (tc_args tc) ''location'' (JStr ''unknown''))
               (dict_get (tc_args tc) ''unit'' (JStr ''celsius''))) = Inl ex"
  | (products) "tc_name tc = ''search_products''"
      "fst (reg_search_products reg (rng_state w) (dict_get (tc_args tc) ''query'' (JStr [])))
          = Inl ex"
  | (graph) "tc_name tc = ''display_graph''"
      "fst (reg_display_graph reg (rng_state w)
               (dict_get (tc_args tc) ''plot_type'' (JStr ''bar''))) = Inl ex"
    using assms unfolding tool_raises_def by blast
  then show ?thesis
  proof cases
    case weather
    obtain r where "reg_get_weather reg (rng_state w)
               (dict_get (tc_args tc) ''location'' (JStr ''unknown''))
               (dict_get (tc_args tc) ''unit'' (JStr ''celsius'')) = (Inl ex, r)"
      using weather(2) by (metis prod.collapse)
    then have "execute_tool_call reg w tc
           = (Inr (ToolMessage ((''Error fetching weather for ''
                    @ reg_format reg (dict_get (tc_args tc) ''location'' (JStr ''unknown''))
                    @ '': '') @ exc_str ex)
                 (tc_id tc) (Some (tc_name tc)) None), w\<lparr>rng_state := r\<rparr>)"
      using weather(1) by (simp add: execute_tool_call_def)
    moreover have "''Error fetching weather for ''
                    @ reg_format reg (dict_get (tc_args tc) ''location'' (JStr ''unknown''))
                    @ '': '' \<noteq> []"
      by simp
    ultimately show ?thesis by blast
  next
    case products
    obtain r where "reg_search_products reg (rng_state w)
               (dict_get (tc_args tc) ''query'' (JStr [])) = (Inl ex, r)"
      using products(2) by (metis prod.collapse)
    then have "execute_tool_call reg w tc
           = (Inr (ToolMessage ((''Error searching products for ''
                    @ reg_format reg (dict_get (tc_args tc) ''query'' (JStr [])) @ '': '')
                    @ exc_str ex)
                 (tc_id tc) (Some (tc_name tc)) None), w\<lparr>rng_state := r\<rparr>)"
      using products(1) by (simp add: execute_tool_call_def)
    moreover have "''Error searching products for ''
                    @ reg_format reg (dict_get (tc_args tc) ''query'' (JStr [])) @ '': '' \<noteq> []"
      by simp
    ultimately show ?thesis by blast
  next
    case graph
    obtain r where "reg_display_graph reg (rng_state w)
               (dict_get (tc_args tc) ''plot_type'' (JStr ''bar'')) = (Inl ex, r)"
      using graph(2) by (metis prod.collapse)
    then have "execute_tool_call reg w tc
           = (Inr (ToolMessage ((''Error displaying graph with plot_type ''
                    @ reg_format reg (dict_get (tc_args tc) ''plot_type'' (JStr ''bar''))
                    @ '': '') @ exc_str ex)
                 (tc_id tc) (Some (tc_name tc)) None), w\<lparr>rng_state := r\<rparr>)"
      using graph(1) by (simp add: execute_tool_call_def)
    moreover have "''Error displaying graph with plot_type ''
                    @ reg_format reg (dict_get (tc_args tc) ''plot_type'' (JStr ''bar''))
                    @ '': '' \<noteq> []"
      by simp
    ultimately show ?thesis by blast
  qed
qed

lemma run_tool_calls_Inl:
  assumes "run_tool_calls reg w tcs acc = (Inl ex, w')"
  shows "\<exists>tc\<in>set tcs. tc_name tc = ''task_tool''
           \<and> reg_subagent_graph reg (subagent_input tc) = Inl ex"
  using assms
proof (induction tcs arbitrary: w acc)
  case Nil
  then show ?case by simp
next
  case (Cons tc tcs)
  obtain res w1 where step: "execute_tool_call reg w tc = (res, w1)"
    by (cases "execute_tool_call reg w tc")
  show ?case
  proof (cases res)
    case (Inl ex1)
    with step Cons.prems have "ex1 = ex" by simp
    with Inl step execute_tool_call_Inl [of reg w tc ex w1] show ?thesis by simp
  next
    case (Inr m)
    with step Cons.prems have "run_tool_calls reg w1 tcs (acc @ [m]) = (Inl ex, w')" by simp
    from Cons.IH [OF this] show ?thesis by auto
  qed
qed

lemma run_tool_calls_Inr:
  assumes "run_tool_calls reg w tcs acc = (Inr msgs, w')"
  shows "\<exists>new. msgs = acc @ new
           \<and> map tool_call_id new = map (\<lambda>tc. Some (tc_id tc)) tcs
           \<and> map msg_name new = map (\<lambda>tc. Some (tc_name tc)) tcs
           \<and> list_all is_tool_message new"
  using assms
proof (induction tcs arbitrary: w acc)
  case Nil
  then show ?case by simp
next
  case (Cons tc tcs)
  obtain res w1 where step: "execute_tool_call reg w tc = (res, w1)"
    by (cases "execute_tool_call reg w tc")
  show ?case
  proof (cases res)
    case (Inl ex1)
    with step Cons.prems show ?thesis by simp
  next
    case (Inr m)
    with step Cons.prems have run: "run_tool_calls reg w1 tcs (acc @ [m]) = (Inr msgs, w')"
      by simp
    from Cons.IH [OF run] obtain new where new: "msgs = (acc @ [m]) @ new"
      "map tool_call_id new = map (\<lambda>tc. Some (tc_id tc)) tcs"
      "map msg_name new = map (\<lambda>tc. Some (tc_name tc)) tcs"
      "list_all is_tool_message new"
      by blast
    from Inr step execute_tool_call_Inr [of reg w tc m w1]
    obtain c a where m: "m = ToolMessage c (tc_id tc) (Some (tc_name tc)) a" by blast
    have "msgs = acc @ (m # new)" using new(1) by simp
    moreover have "map tool_call_id (m # new) = map (\<lambda>tc. Some (tc_id tc)) (tc # tcs)"
      using new(2) m by simp
    moreover have "map msg_name (m # new) = map (\<lambda>tc. Some (tc_name tc)) (tc # tcs)"
      using new(3) m by simp
    moreover have "list_all is_tool_message (m # new)"
      using new(4) m by simp
    ultimately show ?thesis by blast
  qed
qed

lemma run_tool_calls_returns:
  assumes "\<forall>tc\<in>set tcs. tc_name tc = ''task_tool''
             \<longrightarrow> (\<forall>ex. reg_subagent_graph reg (subagent_input tc) \<noteq> Inl ex)"
  shows "\<exists>msgs w'. run_tool_calls reg w tcs acc = (Inr msgs, w')"
  using assms
proof (induction tcs arbitrary: w acc)
  case Nil
  then show ?case by simp
next
  case (Cons tc tcs)
  from Cons.prems execute_tool_call_returns [of tc reg w]
  obtain m w1 where step: "execute_tool_call reg w tc = (Inr m, w1)" by auto
  from Cons.prems have "\<forall>tc\<in>set tcs. tc_name tc = ''task_tool''
             \<longrightarrow> (\<forall>ex. reg_subagent_graph reg (subagent_input tc) \<noteq> Inl ex)" by simp
  from Cons.IH [OF this, of w1 "acc @ [m]"] step show ?case by simp
qed

lemma run_tool_calls_append:
  assumes "run_tool_calls reg w xs acc = (Inr acc1, w1)"
  shows "run_tool_calls reg w (xs @ ys) acc = run_tool_calls reg w1 ys acc1"
  using assms
proof (induction xs arbitrary: w acc)
  case Nil
  then show ?case by simp
next
  case (Cons tc xs)
  obtain res w2 where step: "execute_tool_call reg w tc = (res, w2)"
    by (cases "execute_tool_call reg w tc")
  show ?case
  proof (cases res)
    case (Inl ex1)
    with step Cons.prems show ?thesis by simp
  next
    case (Inr m)
    with step Cons.prems have "run_tool_calls reg w2 xs (acc @ [m]) = (Inr acc1, w1)" by simp
    from Cons.IH [OF this] Inr step show ?thesis by simp
  qed
qed

lemma run_tool_calls_length:
  assumes "run_tool_calls reg w tcs acc = (Inr msgs, w')"
  shows "length msgs = length acc + length tcs"
proof -
  from run_tool_calls_Inr [OF assms] obtain new where
    "msgs = acc @ new" "map tool_call_id new = map (\<lambda>tc. Some (tc_id tc)) tcs" by blast
  then show ?thesis by (metis length_append length_map)
qed

text \<open>Each message of the result is what the loop body gave for the call at its place.\<close>

lemma run_tool_calls_nth:
  assumes "run_tool_calls reg w tcs acc = (Inr msgs, w')" and "i < length tcs"
  shows "\<exists>w1 w2. execute_tool_call reg w1 (tcs ! i) = (Inr (msgs ! (length acc + i)), w2)"
  using assms
proof (induction tcs arbitrary: w acc i)
  case Nil
  then show ?case by simp
next
  case (Cons tc tcs)
  obtain res w1 where step: "execute_tool_call reg w tc = (res, w1)"
    by (cases "execute_tool_call reg w tc")
  show ?case
  proof (cases res)
    case (Inl ex1)
    with step Cons.prems show ?thesis by simp
  next
    case (Inr m)
    with step Cons.prems have run: "run_tool_calls reg w1 tcs (acc @ [m]) = (Inr msgs, w')"
      by simp
    show ?thesis
    proof (cases i)
      case 0
      from run_tool_calls_Inr [OF run] obtain new where "msgs = (acc @ [m]) @ new" by blast
      then have "msgs ! length acc = m" by (simp add: nth_append)
      with 0 Inr step show ?thesis by auto
    next
      case (Suc j)
      with Cons.prems have "j < length tcs" by simp
      from Cons.IH [OF run this] obtain wa wb where
        "execute_tool_call reg wa (tcs ! j) = (Inr (msgs ! (length (acc @ [m]) + j)), wb)"
        by blast
      with Suc show ?thesis by auto
    qed
  qed
qed

lemma tool_executor_node_run:
  assumes "messages st \<noteq> []" "tool_calls (last (messages st)) = Some tcs"
  shows "tool_executor_node reg w st = run_tool_calls reg w tcs []"
  using assms by (cases tcs) (simp_all add: tool_executor_node_def)

section \<open>Lemmas about the tools and the sub-computation\<close>

lemma get_weather_empty_unit:
  "fst (get_weather e r location []) = Inl (PyException ''IndexError'' ''string index out of range'')"
  by (simp add: get_weather_def randint_def choice_def Let_def)

text \<open>
  With a non-empty text as unit the weather lookup returns the JSON text of an object
  that holds the location and the unit it was given.
\<close>

lemma get_weather_json_content:
  assumes "U \<noteq> []"
  shows "\<exists>temp condition humidity wind u0 r.
           get_weather e r0 L U
             = (Inr (json_dumps (weather_data L temp U u0 condition humidity wind)), r)
           \<and> json_field ''location'' (weather_data L temp U u0 condition humidity wind)
               = Some (JStr L)
           \<and> json_field ''unit'' (weather_data L temp U u0 condition humidity wind)
               = Some (JStr U)"
proof -
  obtain b bs where U: "U = b # bs"
    using assms by (cases U) auto
  obtain temp r1 where d1: "randint 10 30 r0 = (temp, r1)"
    by (cases "randint 10 30 r0")
  obtain condition r2 where d2:
    "choice [''sunny'', ''cloudy'', ''rainy'', ''partly cloudy'', ''overcast''] r1 = (condition, r2)"
    by (cases "choice [''sunny'', ''cloudy'', ''rainy'', ''partly cloudy'', ''overcast''] r1")
  obtain humidity r3 where d3: "randint 40 80 r2 = (humidity, r3)"
    by (cases "randint 40 80 r2")
  obtain wind r4 where d4: "randint 5 25 r3 = (wind, r4)"
    by (cases "randint 5 25 r3")
  let ?u0 = "py_upper e (b # takeWhile is_continuation bs)"
  have "get_weather e r0 L U
      = (Inr (json_dumps (weather_data L temp U ?u0 condition humidity wind)), r4)"
    using d1 d2 d3 d4 U by (simp add: get_weather_def)
  moreover have "json_field ''location'' (weather_data L temp U ?u0 condition humidity wind)
               = Some (JStr L)"
    by (simp add: weather_data_def)
  moreover have "json_field ''unit'' (weather_data L temp U ?u0 condition humidity wind)
               = Some (JStr U)"
    by (simp add: weather_data_def)
  ultimately show ?thesis by blast
qed

text \<open>
  Without \<^verbatim>\<open>OPENAI_API_KEY\<close> the sub-computation raises while it builds its client, so
  the mock result of \<^verbatim>\<open>subagent_node\<close> is not reached. With a key, it ends with the answer
  of the language model as its result and as the content of its one message.
\<close>

lemma subagent_graph_no_key:
  assumes "openai_api_key e = None"
  shows "\<exists>ex. subagent_graph e s = Inl ex \<and> exc_class ex = ''OpenAIError''"
  using assms by (simp add: subagent_graph_def subagent_node_def ChatOpenAI_def)

lemma subagent_graph_answer:
  assumes "openai_api_key e = Some k" and "k \<noteq> []"
    and "llm_ainvoke e
           [SystemMessage (''You are a helpful subagent. Execute this task: ''
                             @ py_str e (task s)),
            HumanMessage (''Please complete the following task: '' @ py_str e (task s))]
         = Inr res"
  shows "subagent_graph e s
     = Inr (s\<lparr>sub_messages := sub_messages s @ [AIMessage res []], result := res\<rparr>)"
  using assms
  by (simp add: subagent_graph_def subagent_node_def ChatOpenAI_def getenv_truthy_def
      add_messages_def Let_def)

lemma task_call_final_state:
  "subagent_graph answering_env (subagent_input task_call) = Inr task_final_state"
proof -
  have "openai_api_key answering_env = Some ''sk-test''" and "''sk-test'' \<noteq> []"
    by (simp_all add: answering_env_def)
  moreover have "llm_ainvoke answering_env
           [SystemMessage (''You are a helpful subagent. Execute this task: ''
                             @ py_str answering_env (task (subagent_input task_call))),
            HumanMessage (''Please complete the following task: ''
                            @ py_str answering_env (task (subagent_input task_call)))]
         = Inr ''Total sales: 650''"
    by (simp add: answering_env_def)
  ultimately have "subagent_graph answering_env (subagent_input task_call)
     = Inr ((subagent_input task_call)
              \<lparr>sub_messages := sub_messages (subagent_input task_call)
                                 @ [AIMessage ''Total sales: 650'' []],
               result := ''Total sales: 650''\<rparr>)"
    by (rule subagent_graph_answer)
  then show ?thesis
    by (simp add: subagent_input_def task_call_def dict_get_def task_final_state_def)
qed

lemma execute_search_products:
  assumes "tc_name tc = ''search_products''"
  shows "\<exists>c. execute_tool_call (module_registry e) w tc
           = (Inr (ToolMessage c (tc_id tc) (Some ''search_products'') None), w)"
    and "text_or_absent (tc_args tc) ''query'' \<Longrightarrow>
         execute_tool_call (module_registry e) w tc
           = (Inr (ToolMessage (json_dumps data_table) (tc_id tc) (Some ''search_products'')
                     None), w)"
proof -
  show "\<exists>c. execute_tool_call (module_registry e) w tc
           = (Inr (ToolMessage c (tc_id tc) (Some ''search_products'') None), w)"
    using assms
    by (cases "dict_get (tc_args tc) ''query'' (JStr [])")
      (simp_all add: execute_tool_call_def module_registry_def search_products_invoke_def
        search_products_def Let_def)
  assume "text_or_absent (tc_args tc) ''query''"
  then obtain q where "dict_get (tc_args tc) ''query'' (JStr []) = JStr q"
    by (auto simp: text_or_absent_def dict_get_def split: option.splits json.splits)
  then show "execute_tool_call (module_registry e) w tc
           = (Inr (ToolMessage (json_dumps data_table) (tc_id tc) (Some ''search_products'')
                     None), w)"
    using assms
    by (simp add: execute_tool_call_def module_registry_def search_products_invoke_def
        search_products_def)
qed

lemma run_tool_calls_search_products:
  assumes "\<forall>tc\<in>set tcs. tc_name tc = ''search_products'' \<and> text_or_absent (tc_args tc) ''query''"
  shows "run_tool_calls (module_registry e) w tcs acc
     = (Inr (acc @ map (\<lambda>tc. ToolMessage (json_dumps data_table) (tc_id tc)
                              (Some ''search_products'') None) tcs), w)"
  using assms
proof (induction tcs arbitrary: acc)
  case Nil
  then show ?case by simp
next
  case (Cons tc tcs)
  then have "tc_name tc = ''search_products''" "text_or_absent (tc_args tc) ''query''"
    by simp_all
  from execute_search_products(2) [OF this]
  have step: "execute_tool_call (module_registry e) w tc
     = (Inr (ToolMessage (json_dumps data_table) (tc_id tc) (Some ''search_products'') None), w)" .
  from Cons.prems
  have "\<forall>tc\<in>set tcs. tc_name tc = ''search_products'' \<and> text_or_absent (tc_args tc) ''query''"
    by simp
  from Cons.IH [OF this] step show ?case by simp
qed

section \<open>Arguments that are not text\<close>

text \<open>
  An argument that is not text fails the tool's validation; the tools node turns the
  failure into an error message like any other fault of the tool.
\<close>

lemma weather_unit_not_text:
  "execute_tool_call (module_registry e) w
     \<lparr>tc_name = ''get_weather'', tc_args = [(''location'', JStr ''Tokyo''), (''unit'', JNum 5)],
      tc_id = i\<rparr>
   = (Inr (ToolMessage
             (''Error fetching weather for Tokyo: ''
                @ exc_str (validation_error e ''get_weather''
                             [(''location'', JStr ''Tokyo''), (''unit'', JNum 5)]))
             i (Some ''get_weather'') None), w)"
  by (simp add: execute_tool_call_def module_registry_def dict_get_def get_weather_invoke_def)

lemma search_products_query_not_text:
  "execute_tool_call (module_registry e) w
     \<lparr>tc_name = ''search_products'', tc_args = [(''query'', JNum 5)], tc_id = i\<rparr>
   = (Inr (ToolMessage
             (''Error searching products for '' @ str_int 5 @ '': ''
                @ exc_str (validation_error e ''search_products'' [(''query'', JNum 5)]))
             i (Some ''search_products'') None), w)"
  by (simp add: execute_tool_call_def module_registry_def dict_get_def
      search_products_invoke_def)

section \<open>Lemmas about the start of \<^verbatim>\<open>run_callback\<close>\<close>

lemma process_command_Inr:
  assumes "process_command str_dict c acc = Inr msgs"
  shows "msgs = acc @ contribution str_dict c"
  using assms by (cases c) (auto split: if_splits)

lemma process_command_consistent:
  assumes "consistent c"
  shows "process_command str_dict c acc = Inr (acc @ contribution str_dict c)"
  using assms by (cases c) auto

lemma process_commands_Inr:
  assumes "process_commands str_dict cmds acc = Inr msgs"
  shows "msgs = acc @ concat (map (contribution str_dict) cmds)"
  using assms
proof (induction cmds arbitrary: acc)
  case Nil
  then show ?case by simp
next
  case (Cons c cmds)
  show ?case
  proof (cases "process_command str_dict c acc")
    case (Inl ex)
    with Cons.prems show ?thesis by simp
  next
    case (Inr acc1)
    with Cons.prems have "process_commands str_dict cmds acc1 = Inr msgs" by simp
    from Cons.IH [OF this] process_command_Inr [OF Inr] show ?thesis by simp
  qed
qed

lemma process_commands_consistent:
  assumes "\<forall>c\<in>set cmds. consistent c"
  shows "process_commands str_dict cmds acc = Inr (acc @ concat (map (contribution str_dict) cmds))"
  using assms
proof (induction cmds arbitrary: acc)
  case Nil
  then show ?case by simp
next
  case (Cons c cmds)
  then have "consistent c" and rest: "\<forall>c\<in>set cmds. consistent c" by simp_all
  from process_command_consistent [OF this(1), of str_dict acc] Cons.IH [OF rest]
  show ?case by simp
qed

lemma run_callback_start_input:
  assumes "run_callback_start str_dict model_dump req = Inr (state1, g)"
  shows "process_commands str_dict (req_commands req) [] = Inr (messages g)
       \<and> append_dumps model_dump (init_controller_state (req_state req)) (messages g)
           = Inr state1"
  using assms
  by (auto simp: run_callback_start_def Let_def split: sum.splits)

lemma map_of_dict_set:
  "map_of (dict_set d k v) k = Some v"
  by (induction d) auto

lemma dict_set_dict_set:
  "dict_set (dict_set d k v) k v' = dict_set d k v'"
  by (induction d) auto

lemma append_dumps_Inr:
  assumes "append_dumps model_dump state ms = Inr state1"
  shows "(ms = [] \<and> state1 = state)
       \<or> (\<exists>xs. map_of state ''messages'' = Some (VList xs)
              \<and> state1 = dict_set state ''messages'' (VList (xs @ map model_dump ms)))"
  using assms
proof (induction ms arbitrary: state)
  case Nil
  then show ?case by simp
next
  case (Cons m ms)
  from Cons.prems obtain xs where xs: "map_of state ''messages'' = Some (VList xs)"
    by (auto split: option.splits pyval.splits)
  let ?state' = "dict_set state ''messages'' (VList (xs @ [model_dump m]))"
  from Cons.prems xs have run: "append_dumps model_dump ?state' ms = Inr state1" by simp
  from Cons.IH [OF run] have "state1 = dict_set state ''messages'' (VList (xs @ map model_dump (m # ms)))"
  proof
    assume "ms = [] \<and> state1 = ?state'"
    then show ?thesis by simp
  next
    assume "\<exists>ys. map_of ?state' ''messages'' = Some (VList ys)
              \<and> state1 = dict_set ?state' ''messages'' (VList (ys @ map model_dump ms))"
    then obtain ys where ys: "map_of ?state' ''messages'' = Some (VList ys)"
      "state1 = dict_set ?state' ''messages'' (VList (ys @ map model_dump ms))" by blast
    from ys(1) have "ys = xs @ [model_dump m]" by (simp add: map_of_dict_set)
    with ys(2) show ?thesis by (simp add: dict_set_dict_set)
  qed
  with xs show ?case by blast
qed

section \<open>The claims\<close>

text \<open>
  C2. The entry node of the execution graph is \<^verbatim>\<open>agent\<close>. After \<^verbatim>\<open>agent\<close> the graph goes to
  \<^verbatim>\<open>tools\<close> if and only if the latest message carries at least one tool call, and
  terminates otherwise; after \<^verbatim>\<open>tools\<close> it always returns to \<^verbatim>\<open>agent\<close>.
\<close>

theorem routing_function:
  "wf_entry create_graph = Some ''agent''
   \<and> next_nodes create_graph ''agent'' st
       = [if latest_tool_calls st \<noteq> [] then ''tools'' else END]
   \<and> next_nodes create_graph ''tools'' st = [''agent'']"
  by (simp add: create_graph_def add_edge_def add_conditional_edges_def set_entry_point_def
      add_node_def StateGraph_def next_nodes_def should_call_tools_def latest_tool_calls_def
      split: option.splits)

theorem routing_function_witness:
  "latest_tool_calls weather_state \<noteq> []
   \<and> next_nodes create_graph ''agent'' weather_state = [''tools'']
   \<and> latest_tool_calls \<lparr>messages = [HumanMessage ''hello'']\<rparr> = []
   \<and> next_nodes create_graph ''agent'' \<lparr>messages = [HumanMessage ''hello'']\<rparr> = [END]
   \<and> next_nodes create_graph ''tools'' weather_state = [''agent'']"
proof -
  have 1: "latest_tool_calls weather_state \<noteq> []"
    by (simp add: latest_tool_calls_def weather_state_def)
  have 2: "latest_tool_calls \<lparr>messages = [HumanMessage ''hello'']\<rparr> = []"
    by (simp add: latest_tool_calls_def)
  from 1 2 routing_function [of weather_state]
    routing_function [of "\<lparr>messages = [HumanMessage ''hello'']\<rparr>"]
  show ?thesis by simp
qed

text \<open>
  C3. Let the latest message carry the tool calls \<open>before @ tc # after\<close>, let the calls in
  \<open>before\<close> have completed and left the world \<open>w1\<close>, and let the backend tool that \<open>tc\<close>
  names (weather lookup, product search or chart display) raise \<open>ex\<close> there. Then the
  call yields a tool message that carries the request's id and name and whose content is
  a non-empty text that ends in \<^verbatim>\<open>str(ex)\<close>. That message stands at the request's position
  in what the tools node returns. The exception does not leave the node: an exception
  that does leave it was raised by the sub-computation of a later \<^verbatim>\<open>task_tool\<close> call, and
  the node returns whenever no such sub-computation raises.
\<close>

theorem tool_fault_containment:
  assumes st: "messages st \<noteq> []" "tool_calls (last (messages st)) = Some (before @ tc # after)"
    and before: "run_tool_calls reg w before [] = (Inr ms, w1)"
    and raises: "tool_raises reg w1 tc ex"
  shows "(\<exists>p r. p \<noteq> [] \<and> execute_tool_call reg w1 tc
            = (Inr (ToolMessage (p @ exc_str ex) (tc_id tc) (Some (tc_name tc)) None),
               w1\<lparr>rng_state := r\<rparr>))
       \<and> (\<forall>msgs. fst (tool_executor_node reg w st) = Inr msgs \<longrightarrow>
            length msgs = length (before @ tc # after)
            \<and> (\<exists>p. p \<noteq> [] \<and> msgs ! length before
                  = ToolMessage (p @ exc_str ex) (tc_id tc) (Some (tc_name tc)) None))
       \<and> (\<forall>ex'. fst (tool_executor_node reg w st) = Inl ex' \<longrightarrow>
            (\<exists>tc'\<in>set after. tc_name tc' = ''task_tool''
               \<and> reg_subagent_graph reg (subagent_input tc') = Inl ex'))
       \<and> ((\<forall>tc'\<in>set after. tc_name tc' = ''task_tool''
               \<longrightarrow> (\<forall>ex'. reg_subagent_graph reg (subagent_input tc') \<noteq> Inl ex'))
            \<longrightarrow> (\<exists>msgs. fst (tool_executor_node reg w st) = Inr msgs))"
proof -
  from execute_tool_call_fault [OF raises] obtain p r where p: "p \<noteq> []"
    and call: "execute_tool_call reg w1 tc
            = (Inr (ToolMessage (p @ exc_str ex) (tc_id tc) (Some (tc_name tc)) None),
               w1\<lparr>rng_state := r\<rparr>)"
    by blast
  let ?m = "ToolMessage (p @ exc_str ex) (tc_id tc) (Some (tc_name tc)) None"
  let ?w2 = "w1\<lparr>rng_state := r\<rparr>"
  have node: "tool_executor_node reg w st = run_tool_calls reg ?w2 after (ms @ [?m])"
    using tool_executor_node_run [OF st] run_tool_calls_append [OF before, of "tc # after"] call
    by simp
  have len_ms: "length ms = length before"
    using run_tool_calls_length [OF before] by simp
  have part1: "\<exists>p r. p \<noteq> [] \<and> execute_tool_call reg w1 tc
            = (Inr (ToolMessage (p @ exc_str ex) (tc_id tc) (Some (tc_name tc)) None),
               w1\<lparr>rng_state := r\<rparr>)"
    using p call by blast
  have part2: "\<forall>msgs. fst (tool_executor_node reg w st) = Inr msgs \<longrightarrow>
            length msgs = length (before @ tc # after)
            \<and> (\<exists>p. p \<noteq> [] \<and> msgs ! length before
                  = ToolMessage (p @ exc_str ex) (tc_id tc) (Some (tc_name tc)) None)"
  proof (intro allI impI)
    fix msgs
    assume "fst (tool_executor_node reg w st) = Inr msgs"
    then obtain w' where run: "run_tool_calls reg ?w2 after (ms @ [?m]) = (Inr msgs, w')"
      using node by (metis prod.collapse)
    from run_tool_calls_Inr [OF run] obtain new where new: "msgs = (ms @ [?m]) @ new" by blast
    have "length msgs = length (before @ tc # after)"
      using run_tool_calls_length [OF run] len_ms by simp
    moreover have "msgs ! length before = ?m"
      using new len_ms by (simp add: nth_append)
    ultimately show "length msgs = length (before @ tc # after)
            \<and> (\<exists>p. p \<noteq> [] \<and> msgs ! length before
                  = ToolMessage (p @ exc_str ex) (tc_id tc) (Some (tc_name tc)) None)"
      using p by blast
  qed
  have part3: "\<forall>ex'. fst (tool_executor_node reg w st) = Inl ex' \<longrightarrow>
            (\<exists>tc'\<in>set after. tc_name tc' = ''task_tool''
               \<and> reg_subagent_graph reg (subagent_input tc') = Inl ex')"
  proof (intro allI impI)
    fix ex'
    assume "fst (tool_executor_node reg w st) = Inl ex'"
    then obtain w' where run: "run_tool_calls reg ?w2 after (ms @ [?m]) = (Inl ex', w')"
      using node by (metis prod.collapse)
    from run_tool_calls_Inl [OF run]
    show "\<exists>tc'\<in>set after. tc_name tc' = ''task_tool''
               \<and> reg_subagent_graph reg (subagent_input tc') = Inl ex'" .
  qed
  have part4: "(\<forall>tc'\<in>set after. tc_name tc' = ''task_tool''
               \<longrightarrow> (\<forall>ex'. reg_subagent_graph reg (subagent_input tc') \<noteq> Inl ex'))
            \<longrightarrow> (\<exists>msgs. fst (tool_executor_node reg w st) = Inr msgs)"
  proof
    assume "\<forall>tc'\<in>set after. tc_name tc' = ''task_tool''
               \<longrightarrow> (\<forall>ex'. reg_subagent_graph reg (subagent_input tc') \<noteq> Inl ex')"
    from run_tool_calls_returns [OF this, of ?w2 "ms @ [?m]"] node
    show "\<exists>msgs. fst (tool_executor_node reg w st) = Inr msgs" by auto
  qed
  from part1 part2 part3 part4 show ?thesis by blast
qed

theorem tool_fault_containment_witness:
  "messages weather_state \<noteq> []
   \<and> tool_calls (last (messages weather_state)) = Some ([] @ weather_call_no_unit # [])
   \<and> run_tool_calls (module_registry answering_env) world0 [] [] = (Inr [], world0)
   \<and> tool_raises (module_registry answering_env) world0 weather_call_no_unit index_error
   \<and> (\<exists>msgs. fst (tool_executor_node (module_registry answering_env) world0 weather_state)
         = Inr msgs
       \<and> length msgs = 1
       \<and> (\<exists>p. p \<noteq> [] \<and> msgs ! 0
             = ToolMessage (p @ ''string index out of range'') ''call_1''
                 (Some ''get_weather'') None))"
proof -
  have 1: "messages weather_state \<noteq> []"
    by (simp add: weather_state_def)
  have 2: "tool_calls (last (messages weather_state)) = Some ([] @ weather_call_no_unit # [])"
    by (simp add: weather_state_def)
  have 3: "run_tool_calls (module_registry answering_env) world0 [] [] = (Inr [], world0)"
    by simp
  have 4: "tool_raises (module_registry answering_env) world0 weather_call_no_unit index_error"
    by (simp add: tool_raises_def module_registry_def weather_call_no_unit_def dict_get_def
        get_weather_invoke_def get_weather_empty_unit index_error_def)
  have "\<forall>tc'\<in>set []. tc_name tc' = ''task_tool''
          \<longrightarrow> (\<forall>ex'. reg_subagent_graph (module_registry answering_env) (subagent_input tc')
                  \<noteq> Inl ex')"
    by simp
  with tool_fault_containment [OF 1 2 3 4]
  have "\<exists>msgs. fst (tool_executor_node (module_registry answering_env) world0 weather_state)
         = Inr msgs
       \<and> length msgs = 1
       \<and> (\<exists>p. p \<noteq> [] \<and> msgs ! 0
             = ToolMessage (p @ ''string index out of range'') ''call_1''
                 (Some ''get_weather'') None)"
    by (auto simp: index_error_def weather_call_no_unit_def)
  with 1 2 3 4 show ?thesis by blast
qed

text \<open>
  C4 as stated fails: the artifact of the tool message of a delegation is not the final
  state of the sub-computation but a dictionary that holds it under the key
  \<^verbatim>\<open>subgraph_state\<close>. Here the API key is set and the language model answers.
\<close>

theorem artifact_is_not_final_state:
  "subagent_graph answering_env (subagent_input task_call) = Inr task_final_state
   \<and> fst (execute_tool_call (module_registry answering_env) world0 task_call) = Inr task_message
   \<and> artifact task_message \<noteq> Some (subagent_state_dict task_final_state)"
proof -
  have run: "subagent_graph answering_env
               \<lparr>sub_messages = [], task = JStr ''sum the sales'', result = []\<rparr>
             = Inr task_final_state"
    using task_call_final_state by (simp add: subagent_input_def task_call_def dict_get_def)
  have "fst (execute_tool_call (module_registry answering_env) world0 task_call)
          = Inr task_message"
    using run
    by (simp add: execute_tool_call_def module_registry_def task_call_def dict_get_def
        task_message_def task_final_state_def)
  moreover have "artifact task_message \<noteq> Some (subagent_state_dict task_final_state)"
    by (simp add: task_message_def subagent_state_dict_def)
  ultimately show ?thesis
    using task_call_final_state by simp
qed

text \<open>
  C4, amended. A \<^verbatim>\<open>task_tool\<close> call starts exactly one sub-computation, with the state
  built from its task description, and draws nothing from the random number generator.
  When the sub-computation completes with a final state, the call yields the tool message
  whose content is the result of that state, whose id and name are the request's, and
  whose artifact is the dictionary with the one key \<^verbatim>\<open>subgraph_state\<close>, bound to the full
  final state.
\<close>

theorem delegation_artifact:
  assumes "tc_name tc = ''task_tool''"
  shows "spawned (snd (execute_tool_call reg w tc)) = spawned w @ [subagent_input tc]
       \<and> rng_state (snd (execute_tool_call reg w tc)) = rng_state w
       \<and> (\<forall>final_state. reg_subagent_graph reg (subagent_input tc) = Inr final_state \<longrightarrow>
            fst (execute_tool_call reg w tc)
              = Inr (ToolMessage (result final_state) (tc_id tc) (Some (tc_name tc))
                       (Some (VDict [(''subgraph_state'', subagent_state_dict final_state)]))))"
  using assms
  by (simp add: execute_tool_call_def subagent_input_def Let_def split: sum.splits)

theorem delegation_artifact_witness:
  "tc_name task_call = ''task_tool''
   \<and> spawned (snd (execute_tool_call (module_registry answering_env) world0 task_call))
       = [\<lparr>sub_messages = [], task = JStr ''sum the sales'', result = []\<rparr>]
   \<and> fst (execute_tool_call (module_registry answering_env) world0 task_call)
       = Inr (ToolMessage (result task_final_state) ''call_c'' (Some ''task_tool'')
                (Some (VDict [(''subgraph_state'', subagent_state_dict task_final_state)])))"
proof -
  let ?reg = "module_registry answering_env"
  have 1: "tc_name task_call = ''task_tool''"
    by (simp add: task_call_def)
  have 2: "reg_subagent_graph ?reg (subagent_input task_call) = Inr task_final_state"
    using task_call_final_state by (simp add: module_registry_def)
  note inst = delegation_artifact [OF 1, of ?reg world0]
  from inst have 3: "spawned (snd (execute_tool_call ?reg world0 task_call))
       = [\<lparr>sub_messages = [], task = JStr ''sum the sales'', result = []\<rparr>]"
    by (simp add: world0_def subagent_input_def task_call_def dict_get_def)
  from inst 2 have 4: "fst (execute_tool_call ?reg world0 task_call)
       = Inr (ToolMessage (result task_final_state) ''call_c'' (Some ''task_tool'')
                (Some (VDict [(''subgraph_state'', subagent_state_dict task_final_state)])))"
    by (simp add: task_call_def)
  show ?thesis
    by (intro conjI) (rule 1, rule 3, rule 4)
qed

text \<open>
  C5 as stated fails twice: an add-message command without a non-empty text part
  contributes no message, and the text parts of a command are joined with single spaces,
  not concatenated.
\<close>

theorem add_message_not_one_concatenation:
  "process_commands str_stub [image_command] [] = Inr []
   \<and> process_commands str_stub [two_part_command] [] = Inr [HumanMessage ''Hello world'']
   \<and> ''Hello world'' \<noteq> ''Hello'' @ ''world''"
  by (simp add: image_command_def two_part_command_def text_parts_def truthy_def)

text \<open>
  C5, amended. In command order, each add-message command with at least one non-empty
  text part contributes exactly one user message, whose content is those text parts
  joined by single spaces, and an add-message command with none contributes no message;
  each add-tool-result command contributes exactly one tool message whose tool_call_id is
  the client's toolCallId. These messages are the list the commands are turned into,
  which is returned whenever every command is consistent, and they are the messages of
  the input state the execution graph is started with.
\<close>

theorem inbound_commands:
  "(\<forall>msgs. process_commands str_dict cmds [] = Inr msgs \<longrightarrow>
       msgs = concat (map (contribution str_dict) cmds))
   \<and> ((\<forall>c\<in>set cmds. consistent c) \<longrightarrow>
       process_commands str_dict cmds [] = Inr (concat (map (contribution str_dict) cmds)))
   \<and> (\<forall>state1 g. run_callback_start str_dict model_dump req = Inr (state1, g) \<longrightarrow>
       messages g = concat (map (contribution str_dict) (req_commands req)))"
proof -
  have 1: "\<forall>msgs. process_commands str_dict cmds [] = Inr msgs \<longrightarrow>
       msgs = concat (map (contribution str_dict) cmds)"
    using process_commands_Inr [of str_dict cmds "[]"] by simp
  have 2: "(\<forall>c\<in>set cmds. consistent c) \<longrightarrow>
       process_commands str_dict cmds [] = Inr (concat (map (contribution str_dict) cmds))"
    using process_commands_consistent [of cmds str_dict "[]"] by simp
  have 3: "\<forall>state1 g. run_callback_start str_dict model_dump req = Inr (state1, g) \<longrightarrow>
       messages g = concat (map (contribution str_dict) (req_commands req))"
  proof (intro allI impI)
    fix state1 g
    assume "run_callback_start str_dict model_dump req = Inr (state1, g)"
    from run_callback_start_input [OF this]
    have "process_commands str_dict (req_commands req) [] = Inr (messages g)" by simp
    from process_commands_Inr [OF this]
    show "messages g = concat (map (contribution str_dict) (req_commands req))" by simp
  qed
  from 1 2 3 show ?thesis by (intro conjI)
qed

theorem inbound_commands_witness:
  "consistent two_part_command \<and> consistent image_command \<and> consistent result_command
   \<and> process_commands str_stub [two_part_command, image_command, result_command] []
       = Inr [HumanMessage ''Hello world'', ToolMessage ''{...}'' ''call_p'' None None]
   \<and> run_callback_start str_stub VMsg replay_request
       = Inr ([(''messages'',
                VList [VStr ''earlier'', VMsg (HumanMessage ''Hello world''),
                       VMsg (ToolMessage ''{...}'' ''call_p'' None None)])],
              \<lparr>messages = [HumanMessage ''Hello world'',
                           ToolMessage ''{...}'' ''call_p'' None None]\<rparr>)"
proof -
  let ?cmds = "[two_part_command, image_command, result_command]"
  have c: "consistent two_part_command" "consistent image_command" "consistent result_command"
    by (simp_all add: two_part_command_def image_command_def result_command_def)
  then have all: "\<forall>c\<in>set ?cmds. consistent c" by simp
  have contrib: "concat (map (contribution str_stub) ?cmds)
      = [HumanMessage ''Hello world'', ToolMessage ''{...}'' ''call_p'' None None]"
    by (simp add: two_part_command_def image_command_def result_command_def text_parts_def
        truthy_def str_stub_def)
  from inbound_commands [of str_stub ?cmds VMsg replay_request] all
  have "process_commands str_stub ?cmds [] = Inr (concat (map (contribution str_stub) ?cmds))"
    by blast
  with contrib have run: "process_commands str_stub ?cmds []
       = Inr [HumanMessage ''Hello world'', ToolMessage ''{...}'' ''call_p'' None None]"
    by simp
  then have start: "run_callback_start str_stub VMsg replay_request
       = Inr ([(''messages'',
                VList [VStr ''earlier'', VMsg (HumanMessage ''Hello world''),
                       VMsg (ToolMessage ''{...}'' ''call_p'' None None)])],
              \<lparr>messages = [HumanMessage ''Hello world'',
                           ToolMessage ''{...}'' ''call_p'' None None]\<rparr>)"
    by (simp add: run_callback_start_def replay_request_def init_controller_state_def)
  show ?thesis
    by (intro conjI) (rule c(1), rule c(2), rule c(3), rule run, rule start)
qed

text \<open>
  C6 as stated fails: for a request that names the product-search tool the tools node
  invokes \<^verbatim>\<open>search_products\<close> and returns a tool message.
\<close>

theorem search_products_yields_message:
  "fst (tool_executor_node (module_registry answering_env) world0 products_state)
     = Inr [ToolMessage (json_dumps data_table) ''call_p'' (Some ''search_products'') None]"
  by (simp add: tool_executor_node_def products_state_def products_call_def
      execute_tool_call_def module_registry_def search_products_invoke_def
      search_products_def dict_get_def)

text \<open>
  C6, amended. For every request that names the product-search tool, backend dispatch
  invokes \<^verbatim>\<open>search_products\<close> and produces exactly one tool message for that request, with
  the request's id and name, and leaves the world as it was. Its content is the JSON text
  of the product table whenever the query is text or is not given; a query that is not
  text fails the tool's validation, and the content is then the error text. A latest
  message whose requests all name that tool, with such queries, gives one such message
  per request, in order.
\<close>

theorem search_products_dispatch:
  "(tc_name tc = ''search_products'' \<longrightarrow>
      (\<exists>c. execute_tool_call (module_registry e) w tc
              = (Inr (ToolMessage c (tc_id tc) (Some ''search_products'') None), w)))
   \<and> (tc_name tc = ''search_products'' \<and> text_or_absent (tc_args tc) ''query'' \<longrightarrow>
      execute_tool_call (module_registry e) w tc
        = (Inr (ToolMessage (json_dumps data_table) (tc_id tc) (Some ''search_products'') None),
           w))
   \<and> (messages st \<noteq> [] \<and> tool_calls (last (messages st)) = Some tcs
        \<and> (\<forall>tc\<in>set tcs. tc_name tc = ''search_products''
                            \<and> text_or_absent (tc_args tc) ''query'') \<longrightarrow>
      tool_executor_node (module_registry e) w st
        = (Inr (map (\<lambda>tc. ToolMessage (json_dumps data_table) (tc_id tc)
                             (Some ''search_products'') None) tcs), w))"
proof -
  have one: "tc_name tc = ''search_products'' \<longrightarrow>
      (\<exists>c. execute_tool_call (module_registry e) w tc
              = (Inr (ToolMessage c (tc_id tc) (Some ''search_products'') None), w))"
    using execute_search_products(1) [of tc e w] by blast
  have call: "tc_name tc = ''search_products'' \<and> text_or_absent (tc_args tc) ''query'' \<longrightarrow>
      execute_tool_call (module_registry e) w tc
        = (Inr (ToolMessage (json_dumps data_table) (tc_id tc) (Some ''search_products'') None),
           w)"
    using execute_search_products(2) [of tc e w] by blast
  have node: "messages st \<noteq> [] \<and> tool_calls (last (messages st)) = Some tcs
        \<and> (\<forall>tc\<in>set tcs. tc_name tc = ''search_products''
                            \<and> text_or_absent (tc_args tc) ''query'') \<longrightarrow>
      tool_executor_node (module_registry e) w st
        = (Inr (map (\<lambda>tc. ToolMessage (json_dumps data_table) (tc_id tc)
                             (Some ''search_products'') None) tcs), w)"
  proof
    assume a: "messages st \<noteq> [] \<and> tool_calls (last (messages st)) = Some tcs
        \<and> (\<forall>tc\<in>set tcs. tc_name tc = ''search_products''
                            \<and> text_or_absent (tc_args tc) ''query'')"
    then have "tool_executor_node (module_registry e) w st
        = run_tool_calls (module_registry e) w tcs []"
      using tool_executor_node_run by blast
    with a run_tool_calls_search_products [of tcs e w "[]"]
    show "tool_executor_node (module_registry e) w st
        = (Inr (map (\<lambda>tc. ToolMessage (json_dumps data_table) (tc_id tc)
                             (Some ''search_products'') None) tcs), w)"
      by simp
  qed
  from one call node show ?thesis by (intro conjI)
qed

theorem search_products_dispatch_witness:
  "tc_name products_call = ''search_products''
   \<and> text_or_absent (tc_args products_call) ''query''
   \<and> messages products_state \<noteq> []
   \<and> tool_calls (last (messages products_state)) = Some [products_call]
   \<and> execute_tool_call (module_registry answering_env) world0 products_call
       = (Inr (ToolMessage (json_dumps data_table) ''call_p'' (Some ''search_products'') None),
          world0)
   \<and> tool_executor_node (module_registry answering_env) world0 products_state
       = (Inr [ToolMessage (json_dumps data_table) ''call_p'' (Some ''search_products'') None],
          world0)"
proof -
  have 1: "tc_name products_call = ''search_products''"
    by (simp add: products_call_def)
  have t: "text_or_absent (tc_args products_call) ''query''"
    by (simp add: products_call_def text_or_absent_def)
  have 2: "messages products_state \<noteq> []"
    by (simp add: products_state_def)
  have 3: "tool_calls (last (messages products_state)) = Some [products_call]"
    by (simp add: products_state_def)
  have 4: "\<forall>tc\<in>set [products_call]. tc_name tc = ''search_products''
                            \<and> text_or_absent (tc_args tc) ''query''"
    using 1 t by simp
  note inst = search_products_dispatch
    [of products_call answering_env world0 products_state "[products_call]"]
  from inst 1 t have 5: "execute_tool_call (module_registry answering_env) world0 products_call
       = (Inr (ToolMessage (json_dumps data_table) ''call_p'' (Some ''search_products'') None),
          world0)"
    by (simp add: products_call_def)
  from inst 2 3 4 have 6: "tool_executor_node (module_registry answering_env) world0 products_state
       = (Inr [ToolMessage (json_dumps data_table) ''call_p'' (Some ''search_products'') None],
          world0)"
    by (simp add: products_call_def)
  show ?thesis
    by (intro conjI) (rule 1, rule t, rule 2, rule 3, rule 5, rule 6)
qed

text \<open>
  C7 as stated fails for the weather lookup: with the same arguments, two invocations
  that start from different states of the random number generator return different
  results.
\<close>

theorem get_weather_not_deterministic:
  "fst (get_weather answering_env id ''Tokyo'' ''celsius'')
     \<noteq> fst (get_weather answering_env Suc ''Tokyo'' ''celsius'')"
  by (simp add: get_weather_def randint_def choice_def weather_data_def str_int_def
      str_nat.simps digit_char_def)

text \<open>
  C7, amended. The product search and the chart display are pure functions of their
  arguments: with the same arguments, invocations from any two states of the random
  number generator return the same result, and each leaves the generator as it found
  it. The weather lookup is left out: it draws its temperature, condition, humidity and
  wind speed from the generator.
\<close>

theorem search_and_display_deterministic:
  "fst (search_products r1 query) = fst (search_products r2 query)
   \<and> snd (search_products r1 query) = r1
   \<and> fst (display_graph r1 plot_type) = fst (display_graph r2 plot_type)
   \<and> snd (display_graph r1 plot_type) = r1"
  by (simp add: search_products_def display_graph_def)

text \<open>
  C8. The claim asks for JSON content with the location and the requested unit, and the
  docstring of \<^verbatim>\<open>get_weather\<close> promises a JSON string. The code breaks this for the request
  with location Tokyo and the empty text as unit: \<^verbatim>\<open>unit[0]\<close> raises, and the content of
  the tool message the node returns is the error text, which is not the JSON text of any
  object.
\<close>

theorem weather_content_not_json:
  "tool_calls (last (messages weather_state)) = Some [weather_call_no_unit]
   \<and> map_of (tc_args weather_call_no_unit) ''location'' = Some (JStr ''Tokyo'')
   \<and> map_of (tc_args weather_call_no_unit) ''unit'' = Some (JStr [])
   \<and> fst (tool_executor_node (module_registry answering_env) world0 weather_state)
       = Inr [ToolMessage ''Error fetching weather for Tokyo: string index out of range''
                ''call_1'' (Some ''get_weather'') None]
   \<and> (\<forall>kvs. ''Error fetching weather for Tokyo: string index out of range''
          \<noteq> json_dumps (JObj kvs))"
proof -
  have 1: "tool_calls (last (messages weather_state)) = Some [weather_call_no_unit]"
    by (simp add: weather_state_def)
  have 2: "map_of (tc_args weather_call_no_unit) ''location'' = Some (JStr ''Tokyo'')"
    by (simp add: weather_call_no_unit_def)
  have 3: "map_of (tc_args weather_call_no_unit) ''unit'' = Some (JStr [])"
    by (simp add: weather_call_no_unit_def)
  have 4: "fst (tool_executor_node (module_registry answering_env) world0 weather_state)
       = Inr [ToolMessage ''Error fetching weather for Tokyo: string index out of range''
                ''call_1'' (Some ''get_weather'') None]"
    by (simp add: tool_executor_node_def weather_state_def execute_tool_call_def
        module_registry_def weather_call_no_unit_def dict_get_def get_weather_invoke_def
        get_weather_def randint_def choice_def Let_def)
  have 5: "\<forall>kvs. ''Error fetching weather for Tokyo: string index out of range''
          \<noteq> json_dumps (JObj kvs)"
    by simp
  show ?thesis
    by (intro conjI) (rule 1, rule 2, rule 3, rule 4, rule 5)
qed

text \<open>
  C9 as stated fails: an initial state that is given without messages does not become
  the empty state with an empty messages list; it is kept, and the empty messages list
  is added to it.
\<close>

theorem initial_state_without_messages_kept:
  "init_controller_state (Some [(''theme'', VStr ''dark'')])
     = [(''theme'', VStr ''dark''), (''messages'', VList [])]
   \<and> init_controller_state (Some [(''theme'', VStr ''dark'')]) \<noteq> [(''messages'', VList [])]"
  by (simp add: init_controller_state_def)

text \<open>
  C9, amended. The controller state is seeded from the inbound initial state: without one
  it is the state whose only key is messages, bound to the empty list; an initial state
  that provides messages is taken over as it is; one that provides none is kept, with
  its other keys, and given the empty messages list. This is done before the execution
  graph is started: at that point the state is the seeded one, or, when there are input
  messages, the seeded one with their dumps appended to its messages.
\<close>

theorem run_state_seeding:
  "init_controller_state None = [(''messages'', VList [])]
   \<and> (map_of d ''messages'' = Some v \<longrightarrow> init_controller_state (Some d) = d)
   \<and> (map_of d ''messages'' = None \<longrightarrow>
        init_controller_state (Some d) = d @ [(''messages'', VList [])])
   \<and> (run_callback_start str_dict model_dump req = Inr (state1, g) \<longrightarrow>
        (messages g = [] \<and> state1 = init_controller_state (req_state req))
        \<or> (\<exists>xs. map_of (init_controller_state (req_state req)) ''messages'' = Some (VList xs)
              \<and> state1 = dict_set (init_controller_state (req_state req)) ''messages''
                           (VList (xs @ map model_dump (messages g)))))"
proof -
  have 1: "init_controller_state None = [(''messages'', VList [])]"
    by (simp add: init_controller_state_def)
  have 2: "map_of d ''messages'' = Some v \<longrightarrow> init_controller_state (Some d) = d"
    by (simp add: init_controller_state_def)
  have 3: "map_of d ''messages'' = None \<longrightarrow>
        init_controller_state (Some d) = d @ [(''messages'', VList [])]"
    by (simp add: init_controller_state_def)
  have 4: "run_callback_start str_dict model_dump req = Inr (state1, g) \<longrightarrow>
        (messages g = [] \<and> state1 = init_controller_state (req_state req))
        \<or> (\<exists>xs. map_of (init_controller_state (req_state req)) ''messages'' = Some (VList xs)
              \<and> state1 = dict_set (init_controller_state (req_state req)) ''messages''
                           (VList (xs @ map model_dump (messages g))))"
  proof
    assume "run_callback_start str_dict model_dump req = Inr (state1, g)"
    from run_callback_start_input [OF this]
    have "append_dumps model_dump (init_controller_state (req_state req)) (messages g)
           = Inr state1" by simp
    from append_dumps_Inr [OF this]
    show "(messages g = [] \<and> state1 = init_controller_state (req_state req))
        \<or> (\<exists>xs. map_of (init_controller_state (req_state req)) ''messages'' = Some (VList xs)
              \<and> state1 = dict_set (init_controller_state (req_state req)) ''messages''
                           (VList (xs @ map model_dump (messages g))))" .
  qed
  from 1 2 3 4 show ?thesis by (intro conjI)
qed

theorem run_state_seeding_witness:
  "map_of [(''messages'', VList [VStr ''earlier''])] ''messages'' = Some (VList [VStr ''earlier''])
   \<and> init_controller_state (Some [(''messages'', VList [VStr ''earlier''])])
       = [(''messages'', VList [VStr ''earlier''])]
   \<and> map_of [(''theme'', VStr ''dark'')] ''messages'' = None
   \<and> init_controller_state (Some [(''theme'', VStr ''dark'')])
       = [(''theme'', VStr ''dark''), (''messages'', VList [])]
   \<and> run_callback_start str_stub VMsg replay_request
       = Inr ([(''messages'',
                VList [VStr ''earlier'', VMsg (HumanMessage ''Hello world''),
                       VMsg (ToolMessage ''{...}'' ''call_p'' None None)])],
              \<lparr>messages = [HumanMessage ''Hello world'',
                           ToolMessage ''{...}'' ''call_p'' None None]\<rparr>)
   \<and> (\<exists>xs. map_of (init_controller_state (req_state replay_request)) ''messages''
              = Some (VList xs)
          \<and> [(''messages'',
               VList [VStr ''earlier'', VMsg (HumanMessage ''Hello world''),
                      VMsg (ToolMessage ''{...}'' ''call_p'' None None)])]
              = dict_set (init_controller_state (req_state replay_request)) ''messages''
                  (VList (xs @ map VMsg [HumanMessage ''Hello world'',
                                         ToolMessage ''{...}'' ''call_p'' None None])))"
proof -
  let ?g = "\<lparr>messages = [HumanMessage ''Hello world'',
                           ToolMessage ''{...}'' ''call_p'' None None]\<rparr>"
  let ?state1 = "[(''messages'',
                VList [VStr ''earlier'', VMsg (HumanMessage ''Hello world''),
                       VMsg (ToolMessage ''{...}'' ''call_p'' None None)])]"
  have 1: "map_of [(''messages'', VList [VStr ''earlier''])] ''messages''
      = Some (VList [VStr ''earlier''])" by simp
  have 2: "map_of [(''theme'', VStr ''dark'')] ''messages'' = None" by simp
  from run_state_seeding [of "[(''messages'', VList [VStr ''earlier''])]" "VList [VStr ''earlier'']"]
    1
  have 3: "init_controller_state (Some [(''messages'', VList [VStr ''earlier''])])
       = [(''messages'', VList [VStr ''earlier''])]" by blast
  from run_state_seeding [of "[(''theme'', VStr ''dark'')]"] 2
  have 4: "init_controller_state (Some [(''theme'', VStr ''dark'')])
       = [(''theme'', VStr ''dark''), (''messages'', VList [])]" by simp
  have 5: "run_callback_start str_stub VMsg replay_request = Inr (?state1, ?g)"
    by (simp add: run_callback_start_def replay_request_def init_controller_state_def
        two_part_command_def image_command_def result_command_def text_parts_def truthy_def
        str_stub_def)
  have "messages ?g \<noteq> []" by simp
  with run_state_seeding [of _ _ str_stub VMsg replay_request ?state1 ?g] 5
  have 6: "\<exists>xs. map_of (init_controller_state (req_state replay_request)) ''messages''
              = Some (VList xs)
          \<and> ?state1
              = dict_set (init_controller_state (req_state replay_request)) ''messages''
                  (VList (xs @ map VMsg [HumanMessage ''Hello world'',
                                         ToolMessage ''{...}'' ''call_p'' None None]))"
    by simp
  show ?thesis
    by (intro conjI) (rule 1, rule 3, rule 2, rule 4, rule 5, rule 6)
qed

text \<open>
  C10 as stated fails: when the sub-computation of a \<^verbatim>\<open>task_tool\<close> request raises, the
  exception leaves the tools node and the node returns no tool message at all. Here the
  latest message carries three requests, the API key is set and the language model
  cannot be reached.
\<close>

theorem upstream_fault_no_messages:
  "tool_calls (last (messages mixed_state)) = Some [graph_call, unknown_call, task_call]
   \<and> fst (tool_executor_node (module_registry failing_llm_env) world0 mixed_state)
       = Inl (PyException ''APIConnectionError'' ''Connection error.'')"
  by (simp add: tool_executor_node_def mixed_state_def graph_call_def unknown_call_def
      task_call_def execute_tool_call_def module_registry_def display_graph_invoke_def
      display_graph_def dict_get_def subagent_graph_def subagent_node_def ChatOpenAI_def
      failing_llm_env_def getenv_truthy_def Let_def)

text \<open>
  C10, amended. For a state whose latest message is an assistant message with a non-empty
  list of tool calls, the tools node returns unless the sub-computation of a \<^verbatim>\<open>task_tool\<close>
  request raises; then that exception leaves the node. What the node returns is a list
  of tool messages, one per request and in the order of the requests, each with the
  request's id as its tool_call_id and the request's name as its name; at the place of a
  request whose name is none of the four known tools stands the placeholder message.
\<close>

theorem one_tool_message_per_request:
  assumes st: "messages st \<noteq> []" "tool_calls (last (messages st)) = Some tcs" "tcs \<noteq> []"
  shows "(\<forall>msgs. fst (tool_executor_node reg w st) = Inr msgs \<longrightarrow>
            length msgs = length tcs
            \<and> list_all is_tool_message msgs
            \<and> map tool_call_id msgs = map (\<lambda>tc. Some (tc_id tc)) tcs
            \<and> map msg_name msgs = map (\<lambda>tc. Some (tc_name tc)) tcs
            \<and> (\<forall>i<length tcs. unknown_tool (tc_name (tcs ! i)) \<longrightarrow>
                 msgs ! i = ToolMessage (''Executed tool '' @ tc_name (tcs ! i))
                              (tc_id (tcs ! i)) (Some (tc_name (tcs ! i))) None))
       \<and> ((\<forall>tc\<in>set tcs. tc_name tc = ''task_tool''
               \<longrightarrow> (\<forall>ex. reg_subagent_graph reg (subagent_input tc) \<noteq> Inl ex))
            \<longrightarrow> (\<exists>msgs. fst (tool_executor_node reg w st) = Inr msgs))
       \<and> (\<forall>ex. fst (tool_executor_node reg w st) = Inl ex \<longrightarrow>
            (\<exists>tc\<in>set tcs. tc_name tc = ''task_tool''
               \<and> reg_subagent_graph reg (subagent_input tc) = Inl ex))"
proof -
  have node: "tool_executor_node reg w st = run_tool_calls reg w tcs []"
    using tool_executor_node_run [OF st(1) st(2)] .
  have part1: "\<forall>msgs. fst (tool_executor_node reg w st) = Inr msgs \<longrightarrow>
            length msgs = length tcs
            \<and> list_all is_tool_message msgs
            \<and> map tool_call_id msgs = map (\<lambda>tc. Some (tc_id tc)) tcs
            \<and> map msg_name msgs = map (\<lambda>tc. Some (tc_name tc)) tcs
            \<and> (\<forall>i<length tcs. unknown_tool (tc_name (tcs ! i)) \<longrightarrow>
                 msgs ! i = ToolMessage (''Executed tool '' @ tc_name (tcs ! i))
                              (tc_id (tcs ! i)) (Some (tc_name (tcs ! i))) None)"
  proof (intro allI impI)
    fix msgs
    assume "fst (tool_executor_node reg w st) = Inr msgs"
    then obtain w' where run: "run_tool_calls reg w tcs [] = (Inr msgs, w')"
      using node by (metis prod.collapse)
    have shape: "length msgs = length tcs
            \<and> list_all is_tool_message msgs
            \<and> map tool_call_id msgs = map (\<lambda>tc. Some (tc_id tc)) tcs
            \<and> map msg_name msgs = map (\<lambda>tc. Some (tc_name tc)) tcs"
      using run_tool_calls_Inr [OF run] run_tool_calls_length [OF run] by auto
    have placeholder: "\<forall>i<length tcs. unknown_tool (tc_name (tcs ! i)) \<longrightarrow>
                 msgs ! i = ToolMessage (''Executed tool '' @ tc_name (tcs ! i))
                              (tc_id (tcs ! i)) (Some (tc_name (tcs ! i))) None"
    proof (intro allI impI)
      fix i
      assume i: "i < length tcs" and unknown: "unknown_tool (tc_name (tcs ! i))"
      from run_tool_calls_nth [OF run i] obtain w1 w2 where
        "execute_tool_call reg w1 (tcs ! i) = (Inr (msgs ! i), w2)" by auto
      with execute_tool_call_unknown [OF unknown, of reg w1]
      show "msgs ! i = ToolMessage (''Executed tool '' @ tc_name (tcs ! i))
                              (tc_id (tcs ! i)) (Some (tc_name (tcs ! i))) None"
        by simp
    qed
    from shape placeholder
    show "length msgs = length tcs
            \<and> list_all is_tool_message msgs
            \<and> map tool_call_id msgs = map (\<lambda>tc. Some (tc_id tc)) tcs
            \<and> map msg_name msgs = map (\<lambda>tc. Some (tc_name tc)) tcs
            \<and> (\<forall>i<length tcs. unknown_tool (tc_name (tcs ! i)) \<longrightarrow>
                 msgs ! i = ToolMessage (''Executed tool '' @ tc_name (tcs ! i))
                              (tc_id (tcs ! i)) (Some (tc_name (tcs ! i))) None)"
      by blast
  qed
  have part2: "(\<forall>tc\<in>set tcs. tc_name tc = ''task_tool''
               \<longrightarrow> (\<forall>ex. reg_subagent_graph reg (subagent_input tc) \<noteq> Inl ex))
            \<longrightarrow> (\<exists>msgs. fst (tool_executor_node reg w st) = Inr msgs)"
  proof
    assume "\<forall>tc\<in>set tcs. tc_name tc = ''task_tool''
               \<longrightarrow> (\<forall>ex. reg_subagent_graph reg (subagent_input tc) \<noteq> Inl ex)"
    from run_tool_calls_returns [OF this, of w "[]"] node
    show "\<exists>msgs. fst (tool_executor_node reg w st) = Inr msgs" by auto
  qed
  have part3: "\<forall>ex. fst (tool_executor_node reg w st) = Inl ex \<longrightarrow>
            (\<exists>tc\<in>set tcs. tc_name tc = ''task_tool''
               \<and> reg_subagent_graph reg (subagent_input tc) = Inl ex)"
  proof (intro allI impI)
    fix ex
    assume "fst (tool_executor_node reg w st) = Inl ex"
    then obtain w' where run: "run_tool_calls reg w tcs [] = (Inl ex, w')"
      using node by (metis prod.collapse)
    from run_tool_calls_Inl [OF run]
    show "\<exists>tc\<in>set tcs. tc_name tc = ''task_tool''
               \<and> reg_subagent_graph reg (subagent_input tc) = Inl ex" .
  qed
  from part1 part2 part3 show ?thesis by (intro conjI)
qed

theorem one_tool_message_per_request_witness:
  "messages mixed_state \<noteq> []
   \<and> tool_calls (last (messages mixed_state)) = Some [graph_call, unknown_call, task_call]
   \<and> subagent_graph answering_env (subagent_input task_call) = Inr task_final_state
   \<and> unknown_tool (tc_name unknown_call)
   \<and> (\<exists>msgs. fst (tool_executor_node (module_registry answering_env) world0 mixed_state)
         = Inr msgs
        \<and> map tool_call_id msgs = [Some ''call_a'', Some ''call_b'', Some ''call_c'']
        \<and> map msg_name msgs = [Some ''display_graph'', Some ''send_email'', Some ''task_tool'']
        \<and> msgs ! 1
            = ToolMessage ''Executed tool send_email'' ''call_b'' (Some ''send_email'') None)"
proof -
  let ?tcs = "[graph_call, unknown_call, task_call]"
  let ?reg = "module_registry answering_env"
  have 1: "messages mixed_state \<noteq> []"
    by (simp add: mixed_state_def)
  have 2: "tool_calls (last (messages mixed_state)) = Some ?tcs"
    by (simp add: mixed_state_def)
  have 3: "?tcs \<noteq> []" by simp
  have sub: "\<forall>tc\<in>set ?tcs. tc_name tc = ''task_tool''
               \<longrightarrow> (\<forall>ex. reg_subagent_graph ?reg (subagent_input tc) \<noteq> Inl ex)"
    using task_call_final_state
    by (simp add: module_registry_def graph_call_def unknown_call_def)
  have unk: "unknown_tool (tc_name unknown_call)"
    by (simp add: unknown_call_def unknown_tool_def)
  then have unk1: "unknown_tool (tc_name (?tcs ! 1))" by simp
  note inst = one_tool_message_per_request [OF 1 2 3, of ?reg world0]
  from inst sub obtain msgs where
    msgs: "fst (tool_executor_node ?reg world0 mixed_state) = Inr msgs"
    by blast
  with inst have shape: "map tool_call_id msgs = map (\<lambda>tc. Some (tc_id tc)) ?tcs"
    "map msg_name msgs = map (\<lambda>tc. Some (tc_name tc)) ?tcs"
    and places: "\<forall>i<length ?tcs. unknown_tool (tc_name (?tcs ! i)) \<longrightarrow>
                 msgs ! i = ToolMessage (''Executed tool '' @ tc_name (?tcs ! i))
                              (tc_id (?tcs ! i)) (Some (tc_name (?tcs ! i))) None"
    by blast+
  from shape have ids: "map tool_call_id msgs = [Some ''call_a'', Some ''call_b'', Some ''call_c'']"
    and names: "map msg_name msgs = [Some ''display_graph'', Some ''send_email'', Some ''task_tool'']"
    by (simp_all add: graph_call_def unknown_call_def task_call_def)
  have "(1::nat) < length ?tcs" by simp
  with places unk1
  have "msgs ! 1 = ToolMessage (''Executed tool '' @ tc_name (?tcs ! 1))
                              (tc_id (?tcs ! 1)) (Some (tc_name (?tcs ! 1))) None"
    by blast
  then have ph: "msgs ! 1
      = ToolMessage ''Executed tool send_email'' ''call_b'' (Some ''send_email'') None"
    by (simp add: unknown_call_def)
  from msgs ids names ph
  have found: "\<exists>msgs. fst (tool_executor_node ?reg world0 mixed_state) = Inr msgs
        \<and> map tool_call_id msgs = [Some ''call_a'', Some ''call_b'', Some ''call_c'']
        \<and> map msg_name msgs = [Some ''display_graph'', Some ''send_email'', Some ''task_tool'']
        \<and> msgs ! 1
            = ToolMessage ''Executed tool send_email'' ''call_b'' (Some ''send_email'') None"
    by (intro exI [of _ msgs] conjI)
  show ?thesis
    by (intro conjI) (rule 1, rule 2, rule task_call_final_state, rule unk, rule found)
qed

end
